theory Spec2Isabelle
  imports Main "HOL-Library.Word"
begin

unbundle bit_operations_syntax

section \<open>Machine integers of bitraster.c\<close>

text \<open>
  Bytes (\<open>uint8_t\<close>) and code points (\<open>uint32_t\<close>) are words. The index arithmetic of
  the program mixes \<open>int\<close>, \<open>size_t\<close> and \<open>off_t\<close>; it is modelled on \<open>int\<close> and
  \<open>nat\<close> with every conversion and every unsigned wrap-around written out
  (LP64: \<open>int\<close> has 32 bits, \<open>size_t\<close> and \<open>off_t\<close> have 64).
\<close>

type_synonym byte = "8 word"

definition INT_MAX :: int where
  "INT_MAX = 2 ^ 31 - 1"

definition is_int :: "int \<Rightarrow> bool" where
  \<comment> \<open>the values a C \<open>int\<close> can hold\<close>
  "is_int i = (- (2 ^ 31) \<le> i \<and> i \<le> INT_MAX)"

definition to_size_t :: "int \<Rightarrow> nat" where
  \<comment> \<open>conversion of a signed value to \<open>size_t\<close>: reduction modulo \<open>2 ^ 64\<close>\<close>
  "to_size_t i = nat (i mod 2 ^ 64)"

definition to_int :: "int \<Rightarrow> int" where
  \<comment> \<open>conversion of a wider value to \<open>int\<close>: the low 32 bits, read as two's complement\<close>
  "to_int i = (i + 2 ^ 31) mod 2 ^ 32 - 2 ^ 31"

definition is_off_t :: "int \<Rightarrow> bool" where
  \<comment> \<open>the values an \<open>off_t\<close> can hold\<close>
  "is_off_t i = (- (2 ^ 63) \<le> i \<and> i < 2 ^ 63)"

definition to_off_t :: "int \<Rightarrow> int" where
  \<comment> \<open>conversion of a \<open>size_t\<close> value to \<open>off_t\<close>: 64 bits, read as two's complement\<close>
  "to_off_t i = (i + 2 ^ 63) mod 2 ^ 64 - 2 ^ 63"

section \<open>Program state\<close>

text \<open>
  What ends the process early: \<open>exit\<close> with a status after the lines written to the
  error stream, or undefined behaviour that the model stops at: an access outside an
  allocated block or through a null pointer, a division by zero, an \<open>int\<close> that overflows,
  a block that is freed twice.
\<close>

datatype crash = Out_of_bounds | Division_by_zero | Null_pointer | Signed_overflow | Double_free

datatype stop = Exit int "string list" | Crash crash

text \<open>
  The file-scope variables of bitraster.c. \<open>buffer\<close> is the heap block the pointer of
  that name refers to (a null pointer and an empty block are both \<open>[]\<close>); \<open>life_buffer\<close>
  is \<open>None\<close> while the pointer is null.
\<close>

record globals =
  reverse_byte :: int
  fd :: int
  offset :: int
  fd_size :: int
  buffer :: "byte list"
  buffer_size :: nat
  buffer_offset :: int
  buffer_width :: nat
  last_term_w :: int
  last_term_h :: int
  col_offset :: int
  delay_ms :: int
  life :: int
  life_buffer :: "byte list option"

definition initial_globals :: globals where
  "initial_globals =
     \<lparr>reverse_byte = 0, fd = - 1, offset = 0, fd_size = 0, buffer = [], buffer_size = 0,
      buffer_offset = - 1, buffer_width = 0, last_term_w = 0, last_term_h = 0,
      col_offset = 0, delay_ms = 250, life = 0, life_buffer = None\<rparr>"

section \<open>The bit buffer: getbit and setbit\<close>

definition bit_index :: "globals \<Rightarrow> int \<Rightarrow> int \<Rightarrow> nat" where
  \<comment> \<open>\<open>bit_index = y*buffer_width + x\<close>, computed in \<open>size_t\<close>\<close>
  "bit_index g x y = (to_size_t y * buffer_width g + to_size_t x) mod 2 ^ 64"

definition byte_shift :: "globals \<Rightarrow> nat \<Rightarrow> nat" where
  "byte_shift g i = (if reverse_byte g \<noteq> 0 then i mod 8 else 7 - i mod 8)"

definition getbit :: "globals \<Rightarrow> byte list \<Rightarrow> int \<Rightarrow> int \<Rightarrow> stop + int" where
  "getbit g buf x y =
     (if x < 0 \<or> buffer_width g \<le> to_size_t x \<or> y < 0 then Inr 0
      else
        let byte_index = bit_index g x y div 8 in
        if buffer_size g \<le> byte_index then Inr 0
        else if length buf \<le> byte_index then Inl (Crash Out_of_bounds)
        else Inr (uint (drop_bit (byte_shift g (bit_index g x y)) (buf ! byte_index) AND 1)))"

definition setbit :: "globals \<Rightarrow> byte list \<Rightarrow> int \<Rightarrow> int \<Rightarrow> stop + byte list" where
  "setbit g buf x y =
     (if x < 0 \<or> buffer_width g < to_size_t x \<or> y < 0 then Inr buf
      else
        let byte_index = bit_index g x y div 8 in
        if buffer_size g < byte_index then Inr buf
        else if length buf \<le> byte_index then Inl (Crash Out_of_bounds)
        else Inr (buf[byte_index :=
                    (buf ! byte_index) OR push_bit (byte_shift g (bit_index g x y)) 1]))"

section \<open>The glyph table\<close>

definition sextant_chars :: "32 word list" where
  "sextant_chars =
    [0x00020,0x1FB1E,0x1FB0F,0x1FB2D,0x1FB07,0x1FB26,0x1FB16,0x1FB35,
     0x1FB03,0x1FB22,0x1FB13,0x1FB31,0x1FB0B,0x1FB29,0x1FB1A,0x1FB39,
     0x1FB01,0x1FB20,0x1FB11,0x1FB2F,0x1FB09,0x02590,0x1FB18,0x1FB37,
     0x1FB05,0x1FB24,0x1FB14,0x1FB33,0x1FB0D,0x1FB2B,0x1FB1C,0x1FB3B,
     0x1FB00,0x1FB1F,0x1FB10,0x1FB2E,0x1FB08,0x1FB27,0x1FB17,0x1FB36,
     0x1FB04,0x1FB23,0x0258C,0x1FB32,0x1FB0C,0x1FB2A,0x1FB1B,0x1FB3A,
     0x1FB02,0x1FB21,0x1FB12,0x1FB30,0x1FB0A,0x1FB28,0x1FB19,0x1FB38,
     0x1FB06,0x1FB25,0x1FB15,0x1FB34,0x1FB0E,0x1FB2C,0x1FB1D,0x02588]"

text \<open>
  The index of a character cell (lines 305 to 311 of \<open>update\<close>, and the same six
  statements in \<open>stream\<close>): \<open>index = (index<<1) | getbit(...)\<close>, six times, on a
  \<open>uint8_t\<close>.
\<close>

definition shift_in :: "byte \<Rightarrow> int \<Rightarrow> byte" where
  "shift_in index b = word_of_int (push_bit 1 (uint index) OR b)"

fun read_bits :: "globals \<Rightarrow> byte list \<Rightarrow> (int \<times> int) list \<Rightarrow> byte \<Rightarrow> stop + byte" where
  "read_bits g buf [] index = Inr index"
| "read_bits g buf ((x, y) # cs) index =
     (case getbit g buf x y of
        Inl e \<Rightarrow> Inl e
      | Inr b \<Rightarrow> read_bits g buf cs (shift_in index b))"

definition glyph_index :: "globals \<Rightarrow> byte list \<Rightarrow> int \<Rightarrow> int \<Rightarrow> stop + byte" where
  "glyph_index g buf off_x char_y =
     read_bits g buf
       [(off_x, char_y * 3), (off_x + 1, char_y * 3),
        (off_x, char_y * 3 + 1), (off_x + 1, char_y * 3 + 1),
        (off_x, char_y * 3 + 2), (off_x + 1, char_y * 3 + 2)] 0"

definition glyph :: "byte \<Rightarrow> stop + 32 word" where
  \<comment> \<open>\<open>sextant_chars[index]\<close>\<close>
  "glyph index =
     (if unat index < length sextant_chars then Inr (sextant_chars ! unat index)
      else Inl (Crash Out_of_bounds))"

section \<open>The viewport: update\<close>

text \<open>
  What \<open>realloc\<close> can answer: a block of the size asked for; a null pointer, the old
  block left as it was (no memory); or, when the size asked for is 0 and there is a block,
  a null pointer after the block was freed, which is what glibc does. To any other
  request the answer \<open>Freed\<close> is a null pointer that leaves what there was.
\<close>

datatype realloc_result = Moved | Failed | Freed

text \<open>
  What one call of \<open>update\<close> meets outside the program: the answer of
  \<open>ioctl(TIOCGWINSZ)\<close> (\<open>None\<close> when it fails, else \<open>ws_col\<close> and \<open>ws_row\<close>, both
  \<open>unsigned short\<close>), the answer of \<open>realloc\<close>, the bytes of the file behind
  \<open>fd\<close>, whether \<open>lseek\<close> and \<open>read\<close> work, and the message of the first terminal
  call that fails in \<open>term_reset\<close>, if one does. For the other functions it also says
  whether \<open>malloc\<close> returns a block and which call fails in \<open>term_setup\<close>, if one does.
\<close>

record env =
  winsize :: "(nat \<times> nat) option"
  realloc :: realloc_result
  malloc_ok :: bool
  source :: "byte list"
  lseek_ok :: bool
  read_ok :: bool
  term_setup_error :: "string option"
  term_reset_error :: "string option"

text \<open>
  What a call of \<open>update\<close> does to the outside: the \<open>lseek\<close> and \<open>read\<close> pairs it
  issued (offset and byte count), and the rows of code points it printed.
\<close>

record effect =
  fetches :: "(int \<times> nat) list"
  screen :: "32 word list list"

definition ERROR :: "env \<Rightarrow> string \<Rightarrow> stop" where
  \<comment> \<open>\<open>term_reset(); fprintf(stderr, ...); exit(-1)\<close>, where \<open>term_reset\<close> itself leaves
     with \<open>TERM_ERROR\<close>, also \<open>exit(-1)\<close>, when one of its calls fails; the text of
     \<open>strerror(errno)\<close> is left out of the messages\<close>
  "ERROR e msg =
     (case term_reset_error e of
        Some m \<Rightarrow> Exit (- 1) [m]
      | None \<Rightarrow> Exit (- 1) [msg])"

definition term_size :: "env \<Rightarrow> stop + int \<times> int" where
  "term_size e =
     (case winsize e of
        None \<Rightarrow> Inl (ERROR e ''Error geting terminal size: '')
      | Some (ws_col, ws_row) \<Rightarrow> Inr (int (ws_col mod 2 ^ 16), int (ws_row mod 2 ^ 16)))"

definition stale :: "globals \<Rightarrow> int \<Rightarrow> int \<Rightarrow> bool" where
  \<comment> \<open>the condition of line 229\<close>
  "stale g term_w term_h =
     (term_h \<noteq> last_term_h g \<or> term_w \<noteq> last_term_w g \<or> buffer_offset g \<noteq> offset g)"

definition set_width :: "globals \<Rightarrow> int \<Rightarrow> globals" where
  \<comment> \<open>lines 234 to 239\<close>
  "set_width g term_w =
     (let g1 = (if buffer_width g = 0 then g\<lparr>buffer_width := to_size_t (term_w * 2)\<rparr> else g)
      in if buffer_width g1 mod 8 \<noteq> 0
         then g1\<lparr>buffer_width := buffer_width g1 - buffer_width g1 mod 8\<rparr>
         else g1)"

definition new_buffer_size :: "globals \<Rightarrow> int \<Rightarrow> nat" where
  \<comment> \<open>lines 244 to 253; the comparison with \<open>fd_size\<close> is made in \<open>size_t\<close>\<close>
  "new_buffer_size g term_h =
     (let n0 = (to_size_t (term_h * 3) * buffer_width g) mod 2 ^ 64;
          n1 = (if n0 mod 8 \<noteq> 0 then n0 div 8 + 1 else n0 div 8)
      in if to_size_t (fd_size g) < n1 then to_size_t (fd_size g) else n1)"

definition resize :: "env \<Rightarrow> globals \<Rightarrow> nat \<Rightarrow> stop + globals" where
  \<comment> \<open>lines 254 to 263; the bytes \<open>realloc\<close> adds are indeterminate, here zero. On a
     null pointer the program calls \<open>free(buffer)\<close>: where \<open>realloc\<close> had freed the block
     already, that is the second time. A request of size 0 is made only when
     \<open>buffer_size\<close> is not 0, so there is a block.\<close>
  "resize e g n =
     (if n \<noteq> buffer_size g then
        case realloc e of
          Moved \<Rightarrow> Inr (g\<lparr>buffer := take n (buffer g @ replicate n 0), buffer_size := n\<rparr>)
        | Failed \<Rightarrow> Inl (ERROR e ''Memory allocation error: '')
        | Freed \<Rightarrow>
            if n = 0 then Inl (Crash Double_free)
            else Inl (ERROR e ''Memory allocation error: '')
      else Inr g)"

definition clamp_offset :: "globals \<Rightarrow> globals" where
  \<comment> \<open>lines 266 to 271; \<open>offset + buffer_size > fd_size\<close> is evaluated in \<open>size_t\<close>\<close>
  "clamp_offset g =
     (let g1 = (if to_size_t (fd_size g) < to_size_t (offset g + int (buffer_size g))
                then g\<lparr>offset := to_off_t (int (to_size_t (fd_size g - int (buffer_size g))))\<rparr>
                else g)
      in if offset g1 < 0 then g1\<lparr>offset := 0\<rparr> else g1)"

definition fetch :: "env \<Rightarrow> globals \<Rightarrow> stop + globals" where
  \<comment> \<open>lines 272 to 279: \<open>lseek\<close> to \<open>offset\<close>, then \<open>read\<close> of \<open>buffer_size\<close> bytes into
     \<open>buffer\<close>; a short read is an error\<close>
  "fetch e g =
     (if offset g < 0 \<or> \<not> lseek_ok e then Inl (ERROR e ''File seek error: '')
      else
        let got = take (buffer_size g) (drop (nat (offset g)) (source e)) in
        if \<not> read_ok e \<or> length got \<noteq> buffer_size g
        then Inl (ERROR e ''File read error: '')
        else if length (buffer g) < length got then Inl (Crash Out_of_bounds)
        else Inr (g\<lparr>buffer := got @ drop (length got) (buffer g)\<rparr>))"

definition refetch :: "env \<Rightarrow> globals \<Rightarrow> int \<Rightarrow> int \<Rightarrow> stop + globals" where
  \<comment> \<open>the body of the conditional of lines 229 to 284\<close>
  "refetch e g term_w term_h =
     (let g1 = set_width g term_w in
      case resize e g1 (new_buffer_size g1 term_h) of
        Inl s \<Rightarrow> Inl s
      | Inr g2 \<Rightarrow>
          (case fetch e (clamp_offset g2) of
             Inl s \<Rightarrow> Inl s
           | Inr g3 \<Rightarrow>
               Inr (g3\<lparr>last_term_h := term_h, last_term_w := term_w,
                        buffer_offset := offset g3\<rparr>)))"

definition clamp_col_offset :: "globals \<Rightarrow> int \<Rightarrow> globals" where
  \<comment> \<open>lines 286 to 291; the comparison and the subtraction are made in \<open>size_t\<close>, the result
     is stored in an \<open>int\<close>\<close>
  "clamp_col_offset g term_w =
     (let g1 = (if buffer_width g < to_size_t (col_offset g + term_w * 2)
                then g\<lparr>col_offset :=
                        to_int (int (to_size_t (int (buffer_width g) - term_w * 2)))\<rparr>
                else g)
      in if col_offset g1 < 0 then g1\<lparr>col_offset := 0\<rparr> else g1)"

definition display_width :: "globals \<Rightarrow> int \<Rightarrow> int" where
  \<comment> \<open>lines 293 to 296\<close>
  "display_width g term_w =
     (let disp_w = to_int (int (buffer_width g div 2))
      in if term_w < disp_w then term_w else disp_w)"

function draw_cells :: "globals \<Rightarrow> int \<Rightarrow> int \<Rightarrow> int \<Rightarrow> stop + 32 word list" where
  "draw_cells g disp_w char_y char_x =
     (if char_x < disp_w then
        case glyph_index g (buffer g) (col_offset g + char_x * 2) char_y of
          Inl s \<Rightarrow> Inl s
        | Inr index \<Rightarrow>
            (case glyph index of
               Inl s \<Rightarrow> Inl s
             | Inr c \<Rightarrow>
                 (case draw_cells g disp_w char_y (char_x + 1) of
                    Inl s \<Rightarrow> Inl s
                  | Inr cs \<Rightarrow> Inr (c # cs)))
      else Inr [])"
  by pat_completeness auto
termination
  by (relation "measure (\<lambda>(g, disp_w, char_y, char_x). nat (disp_w - char_x))") auto

function draw_rows :: "globals \<Rightarrow> int \<Rightarrow> int \<Rightarrow> int \<Rightarrow> stop + 32 word list list" where
  "draw_rows g disp_w term_h char_y =
     (if char_y < term_h then
        case draw_cells g disp_w char_y 0 of
          Inl s \<Rightarrow> Inl s
        | Inr row \<Rightarrow>
            (case draw_rows g disp_w term_h (char_y + 1) of
               Inl s \<Rightarrow> Inl s
             | Inr rows \<Rightarrow> Inr (row # rows))
      else Inr [])"
  by pat_completeness auto
termination
  by (relation "measure (\<lambda>(g, disp_w, term_h, char_y). nat (term_h - char_y))") auto

declare draw_cells.simps [simp del] draw_rows.simps [simp del]

definition update :: "env \<Rightarrow> globals \<Rightarrow> stop + globals \<times> effect" where
  "update e g =
     (case term_size e of
        Inl s \<Rightarrow> Inl s
      | Inr (term_w, term_h) \<Rightarrow>
          (case (if stale g term_w term_h then refetch e g term_w term_h else Inr g) of
             Inl s \<Rightarrow> Inl s
           | Inr g1 \<Rightarrow>
               let g2 = clamp_col_offset g1 term_w in
               (case draw_rows g2 (display_width g2 term_w) term_h 0 of
                  Inl s \<Rightarrow> Inl s
                | Inr rows \<Rightarrow>
                    Inr (g2,
                         \<lparr>fetches = (if stale g term_w term_h
                                      then [(offset g2, buffer_size g2)] else []),
                          screen = rows\<rparr>))))"

section \<open>The automaton: step_life\<close>

fun sum_bits :: "globals \<Rightarrow> byte list \<Rightarrow> (int \<times> int) list \<Rightarrow> int \<Rightarrow> stop + int" where
  \<comment> \<open>\<open>count += getbit(...)\<close>, one statement for each coordinate\<close>
  "sum_bits g buf [] count = Inr count"
| "sum_bits g buf ((x, y) # cs) count =
     (case getbit g buf x y of
        Inl s \<Rightarrow> Inl s
      | Inr b \<Rightarrow> sum_bits g buf cs (count + b))"

definition life_cell :: "globals \<Rightarrow> byte list \<Rightarrow> int \<Rightarrow> int \<Rightarrow> stop + byte list" where
  \<comment> \<open>lines 328 to 346: the body of the inner loop, on the scratch block \<open>lb\<close>\<close>
  "life_cell g lb x y =
     (case sum_bits g (buffer g)
             [(x - 1, y - 1), (x, y - 1), (x + 1, y - 1),
              (x - 1, y), (x + 1, y),
              (x - 1, y + 1), (x, y + 1), (x + 1, y + 1)] 0 of
        Inl s \<Rightarrow> Inl s
      | Inr count \<Rightarrow>
          (case getbit g (buffer g) x y of
             Inl s \<Rightarrow> Inl s
           | Inr b \<Rightarrow>
               if b \<noteq> 0 then
                 if count = 2 \<or> count = 3 then setbit g lb x y else Inr lb
               else
                 if count = 3 then setbit g lb x y else Inr lb))"

function life_cells :: "globals \<Rightarrow> byte list \<Rightarrow> int \<Rightarrow> int \<Rightarrow> stop + byte list" where
  \<comment> \<open>\<open>for( x=0; x<buffer_width; x++ )\<close>, from \<open>x\<close> on; the comparison is made in
     \<open>size_t\<close>, and \<open>x + 1\<close> must not pass \<open>INT_MAX\<close>\<close>
  "life_cells g lb y x =
     (if to_size_t x < buffer_width g then
        if INT_MAX \<le> x then Inl (Crash Signed_overflow)
        else
          case life_cell g lb x y of
            Inl s \<Rightarrow> Inl s
          | Inr lb' \<Rightarrow> life_cells g lb' y (x + 1)
      else Inr lb)"
  by pat_completeness auto
termination
  by (relation "measure (\<lambda>(g, lb, y, x). nat (INT_MAX - x))") auto

function life_rows :: "globals \<Rightarrow> byte list \<Rightarrow> int \<Rightarrow> int \<Rightarrow> stop + byte list" where
  \<comment> \<open>\<open>for( y=0; y<h; y++ )\<close>, from \<open>y\<close> on\<close>
  "life_rows g lb h y =
     (if y < h then
        case life_cells g lb y 0 of
          Inl s \<Rightarrow> Inl s
        | Inr lb' \<Rightarrow> life_rows g lb' h (y + 1)
      else Inr lb)"
  by pat_completeness auto
termination
  by (relation "measure (\<lambda>(g, lb, h, y). nat (h - y))") auto

declare life_cells.simps [simp del] life_rows.simps [simp del]

definition memset_zero :: "byte list \<Rightarrow> nat \<Rightarrow> stop + byte list" where
  \<comment> \<open>\<open>memset(p, 0, n)\<close> on the block \<open>p\<close>\<close>
  "memset_zero p n =
     (if length p < n then Inl (Crash Out_of_bounds)
      else Inr (replicate n 0 @ drop n p))"

definition memcpy :: "byte list \<Rightarrow> byte list \<Rightarrow> nat \<Rightarrow> stop + byte list" where
  \<comment> \<open>\<open>memcpy(dst, src, n)\<close>: the block \<open>dst\<close> afterwards\<close>
  "memcpy dst src n =
     (if length dst < n \<or> length src < n then Inl (Crash Out_of_bounds)
      else Inr (take n src @ drop n dst))"

definition step_life :: "bool \<Rightarrow> globals \<Rightarrow> stop + globals" where
  \<comment> \<open>\<open>got\<close>: whether \<open>malloc\<close> returns a block, should it be called; the result of
     \<open>malloc\<close> is not checked by the program\<close>
  "step_life got g =
     (if buffer_width g = 0 then Inl (Crash Division_by_zero)
      else
        let h = to_int (int ((buffer_size g * 8) mod 2 ^ 64 div buffer_width g));
            p = (case life_buffer g of
                   Some lb \<Rightarrow> Some lb
                 | None \<Rightarrow> if got then Some (replicate (buffer_size g) 0) else None)
        in case p of
             None \<Rightarrow> if buffer_size g = 0 then Inr g else Inl (Crash Null_pointer)
           | Some lb \<Rightarrow>
               (case memset_zero lb (buffer_size g) of
                  Inl s \<Rightarrow> Inl s
                | Inr lb0 \<Rightarrow>
                    (case life_rows g lb0 h 0 of
                       Inl s \<Rightarrow> Inl s
                     | Inr lb1 \<Rightarrow>
                         (case memcpy (buffer g) lb1 (buffer_size g) of
                            Inl s \<Rightarrow> Inl s
                          | Inr b \<Rightarrow> Inr (g\<lparr>buffer := b, life_buffer := Some lb1\<rparr>)))))"


section \<open>The process: main, run and stream\<close>

text \<open>
  What \<open>main\<close> meets while it reads its arguments: the result of \<open>strtoul(s, 0, 0)\<close>
  (the value, and whether \<open>errno\<close> is set afterwards), the descriptor \<open>open\<close> returns for
  a path (negative when it fails) and the result of \<open>lseek(fd, 0, SEEK_END)\<close>.
\<close>

record startup =
  strtoul :: "string \<Rightarrow> nat \<times> bool"
  open_path :: "string \<Rightarrow> int"
  seek_end :: "int \<Rightarrow> int"

definition cmd_filename :: "string \<Rightarrow> string" where
  \<comment> \<open>lines 70 to 77: what follows the last \<open>/\<close> of \<open>cmd\<close>\<close>
  "cmd_filename cmd = rev (takeWhile (\<lambda>c. c \<noteq> CHR ''/'') (rev cmd))"

definition usage_text :: "string \<Rightarrow> string list" where
  \<comment> \<open>the nine \<open>fprintf(stderr, ...)\<close> of \<open>usage\<close>, without their newlines\<close>
  "usage_text cmd =
     [''Usage:'',
      cmd_filename cmd @ '' [-h] [-r] [-wWidth] [-oOffset] [-dDelayMS] [path]'',
      [],
      ''  -w : Bit width of buffer (controls horizontal scroll)'',
      ''       Width must be a multple of 8 bits.'',
      ''  -o : Initial Byte offset into file'',
      ''  -d : Delay, in millisecons, or any automatic updates'',
      [],
      ''If path is not provided, data is streamed from stdin, -w and -o are ignored'']"

definition usage :: "string \<Rightarrow> string list \<Rightarrow> stop" where
  \<comment> \<open>\<open>usage(argv[0])\<close> after the lines \<open>cause\<close> went to the error stream: it ends
     with \<open>exit(0)\<close>\<close>
  "usage cmd cause = Exit 0 (cause @ usage_text cmd)"

fun parse_args :: "startup \<Rightarrow> string \<Rightarrow> string list \<Rightarrow> globals \<Rightarrow> stop + globals" where
  \<comment> \<open>the loop of lines 518 to 574 over \<open>argv[1]\<close>, \<open>argv[2]\<close>, ...; the text of
     \<open>strerror(errno)\<close> is left out of the messages\<close>
  "parse_args st cmd [] g = Inr g"
| "parse_args st cmd (a # as) g =
     (if a = ''-h'' then Inl (usage cmd [])
      else if a = ''-r'' then parse_args st cmd as (g\<lparr>reverse_byte := 1\<rparr>)
      else if take 2 a = ''-w'' then
        let g1 = g\<lparr>buffer_width := fst (strtoul st (drop 2 a)) mod 2 ^ 64\<rparr>
        in if snd (strtoul st (drop 2 a)) then Inl (usage cmd [''Width error: ''])
           else if buffer_width g1 mod 8 \<noteq> 0
           then Inl (usage cmd [''Width is not even multiple of 8''])
           else parse_args st cmd as g1
      else if take 2 a = ''-o'' then
        let g1 = g\<lparr>offset := to_off_t (int (fst (strtoul st (drop 2 a)) mod 2 ^ 64))\<rparr>
        in if snd (strtoul st (drop 2 a)) then Inl (usage cmd [''Offset error: ''])
           else if offset g1 < 0 then Inl (usage cmd [''Offset negative''])
           else parse_args st cmd as g1
      else if take 2 a = ''-d'' then
        let g1 = g\<lparr>delay_ms := to_int (int (fst (strtoul st (drop 2 a)) mod 2 ^ 64))\<rparr>
        in if snd (strtoul st (drop 2 a)) then Inl (usage cmd [''Delay error: ''])
           else parse_args st cmd as g1
      else if fd g < 0 then
        let g1 = g\<lparr>fd := open_path st a\<rparr>
        in if fd g1 < 0 then Inl (usage cmd [''Path error: ''])
           else
             let g2 = g1\<lparr>fd_size := seek_end st (fd g1)\<rparr>
             in if fd_size g2 < 0 then Inl (usage cmd [''File size error: ''])
                else parse_args st cmd as g2
      else Inl (usage cmd []))"

text \<open>
  One turn of the loops of \<open>run\<close> and \<open>stream\<close>: what \<open>read(STDIN_FILENO, ...)\<close> does
  (it fails with \<open>EAGAIN\<close>, it fails otherwise, or it returns bytes), or the arrival of
  \<open>SIGINT\<close>. Each turn comes with the environment of that moment.
\<close>

datatype event = Again | Read_error | Keys "byte list" | Interrupt

datatype action = Quit | Continue globals | Redraw globals

definition leave :: "env \<Rightarrow> stop" where
  \<comment> \<open>after the loop of \<open>run\<close>: \<open>term_reset()\<close>, then \<open>main\<close> returns 0; also the handler
     of \<open>SIGINT\<close>, \<open>term_reset(); exit(0)\<close>\<close>
  "leave e =
     (case term_reset_error e of
        Some m \<Rightarrow> Exit (- 1) [m]
      | None \<Rightarrow> Exit 0 [])"

definition scroll :: "globals \<Rightarrow> int \<Rightarrow> globals" where
  \<comment> \<open>\<open>offset = offset + d\<close> for a \<open>size_t\<close> \<open>d\<close>, or \<open>offset - d\<close>: computed in
     \<open>size_t\<close> and stored in an \<open>off_t\<close>\<close>
  "scroll g d = g\<lparr>offset := to_off_t (int (to_size_t (offset g + d)))\<rparr>"

definition key_action :: "globals \<Rightarrow> byte list \<Rightarrow> action" where
  \<comment> \<open>lines 387 to 447, for the bytes \<open>read\<close> returned; \<open>input\<close> was zeroed before\<close>
  "key_action g input =
     (let inp = (\<lambda>k. (input @ replicate 8 0) ! k);
          row = int (buffer_width g div 8) in
      if length input = 1 then
        if inp 0 = 0x1b then Quit
        else if inp 0 = 0x71 \<or> inp 0 = 0x51 then Quit
        else if inp 0 = 0x69 \<or> inp 0 = 0x49 then Continue g
        else if inp 0 = 0x68 \<or> inp 0 = 0x48 then Redraw (g\<lparr>col_offset := col_offset g - 1\<rparr>)
        else if inp 0 = 0x6a \<or> inp 0 = 0x4a then Redraw (scroll g row)
        else if inp 0 = 0x6b \<or> inp 0 = 0x4b then Redraw (scroll g (- row))
        else if inp 0 = 0x6c \<or> inp 0 = 0x4c then Redraw (g\<lparr>col_offset := col_offset g + 1\<rparr>)
        else if inp 0 = 0x72 \<or> inp 0 = 0x52 then Continue (g\<lparr>life := 1\<rparr>)
        else Redraw g
      else if length input = 3 then
        if inp 0 = 0x1b \<and> (inp 1 = 0x5b \<or> inp 1 = 0x4f) then
          if inp 2 = 0x41 then Redraw (scroll g (- row))
          else if inp 2 = 0x42 then Redraw (scroll g row)
          else if inp 2 = 0x43 then Redraw (g\<lparr>col_offset := col_offset g + 1\<rparr>)
          else if inp 2 = 0x44 then Redraw (g\<lparr>col_offset := col_offset g - 1\<rparr>)
          else if inp 2 = 0x46 then Redraw (g\<lparr>offset := fd_size g\<rparr>)
          else if inp 2 = 0x48 then Redraw (g\<lparr>offset := 0\<rparr>)
          else Redraw g
        else Redraw g
      else if length input = 4 then
        if inp 0 = 0x1b \<and> inp 1 = 0x5b \<and> inp 3 = 0x7e then
          if inp 2 = 0x35 then Redraw (scroll g (- int (buffer_size g)))
          else if inp 2 = 0x36 then Redraw (scroll g (int (buffer_size g)))
          else Redraw g
        else Redraw g
      else Redraw g)"

definition disarm :: "globals \<Rightarrow> globals" where
  \<comment> \<open>lines 448 to 453\<close>
  "disarm g =
     (if life g \<noteq> 0 then g\<lparr>life := 0, life_buffer := None, buffer_offset := - 1\<rparr> else g)"

fun run_loop :: "(env \<times> event) list \<Rightarrow> globals \<Rightarrow> stop + globals" where
  \<comment> \<open>the \<open>for(;;)\<close> of \<open>run\<close>; \<open>Inr\<close> is the state of a process that is still running
     when the turns given are used up\<close>
  "run_loop [] g = Inr g"
| "run_loop ((e, ev) # turns) g =
     (case ev of
        Interrupt \<Rightarrow> Inl (leave e)
      | Read_error \<Rightarrow> Inl (leave e)
      | Again \<Rightarrow>
          if life g \<noteq> 0 then
            case step_life (malloc_ok e) g of
              Inl s \<Rightarrow> Inl s
            | Inr g1 \<Rightarrow>
                (case update e g1 of
                   Inl s \<Rightarrow> Inl s
                 | Inr (g2, out) \<Rightarrow> run_loop turns g2)
          else run_loop turns g
      | Keys input \<Rightarrow>
          (case key_action g (take 8 input) of
             Quit \<Rightarrow> Inl (leave e)
           | Continue g1 \<Rightarrow> run_loop turns g1
           | Redraw g1 \<Rightarrow>
               (case update e (disarm g1) of
                  Inl s \<Rightarrow> Inl s
                | Inr (g2, out) \<Rightarrow> run_loop turns g2)))"

definition run :: "env \<Rightarrow> (env \<times> event) list \<Rightarrow> globals \<Rightarrow> stop + globals" where
  \<comment> \<open>\<open>term_setup\<close> leaves with \<open>TERM_ERROR\<close>, which is \<open>exit(-1)\<close>, when a call fails\<close>
  "run e turns g =
     (case term_setup_error e of
        Some m \<Rightarrow> Inl (Exit (- 1) [m])
      | None \<Rightarrow>
          (case update e g of
             Inl s \<Rightarrow> Inl s
           | Inr (g1, out) \<Rightarrow> run_loop turns g1))"

fun stream_loop :: "bool \<Rightarrow> (env \<times> event) list \<Rightarrow> globals \<Rightarrow> stop + globals" where
  \<comment> \<open>the \<open>for(;;)\<close> of \<open>stream\<close>; \<open>block\<close>: whether \<open>buffer\<close> points to a block (it is
     null when \<open>stream\<close> starts, and a block after a turn). A read that does not fill
     the buffer ends the loop, and \<open>main\<close> returns 0; \<open>SIGINT\<close> is \<open>exit(0)\<close>. The line is
     drawn from column 0. \<open>realloc\<close> is called on every turn, and a null pointer is
     followed by \<open>free(buffer)\<close> as in \<open>update\<close>.\<close>
  "stream_loop block [] g = Inr g"
| "stream_loop block ((e, ev) # turns) g =
     (case term_size e of
        Inl s \<Rightarrow> Inl s
      | Inr (term_w, term_h) \<Rightarrow>
          let g1 = set_width g term_w;
              n = buffer_width g1 div 8 * 3
          in case realloc e of
               Failed \<Rightarrow> Inl (Exit (- 1) [''Memory allocation error: ''])
             | Freed \<Rightarrow>
                 if block \<and> n = 0 then Inl (Crash Double_free)
                 else Inl (Exit (- 1) [''Memory allocation error: ''])
             | Moved \<Rightarrow>
               let g2 = g1\<lparr>buffer := take n (buffer g1 @ replicate n 0), buffer_size := n\<rparr>
               in case ev of
                    Interrupt \<Rightarrow> Inl (Exit 0 [])
                  | Read_error \<Rightarrow> Inl (Exit 0 [])
                  | Again \<Rightarrow> Inl (Exit 0 [])
                  | Keys bs \<Rightarrow>
                      if length (take n bs) \<noteq> n then Inl (Exit 0 [])
                      else
                        let g3 = g2\<lparr>buffer := take n bs\<rparr> in
                        (case draw_cells (g3\<lparr>col_offset := 0\<rparr>)
                                (to_int (int (buffer_width g3 div 2))) 0 0 of
                           Inl s \<Rightarrow> Inl s
                         | Inr line \<Rightarrow> stream_loop True turns g3))"

definition stream :: "(env \<times> event) list \<Rightarrow> globals \<Rightarrow> stop + globals" where
  \<comment> \<open>\<open>stream\<close> is entered with the null pointer in \<open>buffer\<close>\<close>
  "stream turns g = stream_loop False turns g"

definition main :: "startup \<Rightarrow> string list \<Rightarrow> env \<Rightarrow> (env \<times> event) list \<Rightarrow> stop + globals" where
  \<comment> \<open>\<open>argv\<close>, the environment at the start of \<open>run\<close>, and the turns of the loop\<close>
  "main st argv e turns =
     (case argv of
        [] \<Rightarrow> stream turns initial_globals
      | cmd # args \<Rightarrow>
          (case parse_args st cmd args initial_globals of
             Inl s \<Rightarrow> Inl s
           | Inr g \<Rightarrow> if fd g < 0 then stream turns g else run e turns g))"

text \<open>
  A start to evaluate: \<open>strtoul\<close> reads 7 and 8, wraps \<open>-1\<close> to \<open>ULONG_MAX\<close> and sets
  \<open>errno\<close> on twenty nines, which is out of range; \<open>file\<close> can be opened and has eight
  bytes, \<open>pipe\<close> can be opened and cannot be sized.
\<close>

definition example_startup :: startup where
  "example_startup =
     \<lparr>strtoul = (\<lambda>s. if s = ''7'' then (7, False) else if s = ''8'' then (8, False)
                       else if s = ''-1'' then (2 ^ 64 - 1, False)
                       else if s = ''99999999999999999999'' then (2 ^ 64 - 1, True)
                       else (0, False)),
      open_path = (\<lambda>p. if p = ''file'' then 3 else if p = ''pipe'' then 4 else - 1),
      seek_end = (\<lambda>f. if f = 3 then 8 else - 1)\<rparr>"







text \<open>
  A run to evaluate: \<open>bitraster -w8 -o7 file\<close> on a file of eight bytes, in a terminal of
  5 columns and 1 row, at the first call of \<open>update\<close>.
\<close>

definition example_env :: env where
  "example_env =
     \<lparr>winsize = Some (5, 1), realloc = Moved, malloc_ok = True,
      source = [128, 0, 0, 255, 1, 2, 3, 4], lseek_ok = True, read_ok = True,
      term_setup_error = None, term_reset_error = None\<rparr>"

definition example_globals :: globals where
  "example_globals = initial_globals\<lparr>fd := 3, fd_size := 8, buffer_width := 8, offset := 7\<rparr>"

text \<open>
  The sextant characters of Unicode's block of symbols for legacy computing,
  U+1FB00 to U+1FB3B.
\<close>

definition is_sextant :: "32 word \<Rightarrow> bool" where
  "is_sextant c = (0x1FB00 \<le> c \<and> c \<le> 0x1FB3B)"

section \<open>Facts about the bit buffer\<close>

lemma to_size_t_nonneg: "0 \<le> i \<Longrightarrow> i < 2 ^ 64 \<Longrightarrow> to_size_t i = nat i"
  by (simp add: to_size_t_def)

lemma to_size_t_is_int: "is_int i \<Longrightarrow> 0 \<le> i \<Longrightarrow> to_size_t i = nat i"
  by (simp add: to_size_t_def is_int_def INT_MAX_def)

lemma and_one_bit: "uint (drop_bit n (w::byte) AND 1) = of_bool (bit w n)"
  by (simp add: and_one_eq mod_2_eq_odd bit_iff_odd_drop_bit)

lemma getbit_value:
  "getbit g buf x y = Inr b \<Longrightarrow> b = 0 \<or> b = 1"
  by (auto simp: getbit_def Let_def and_one_bit split: if_splits)

lemma getbit_total:
  "buffer_size g \<le> length buf \<Longrightarrow> \<exists>b. getbit g buf x y = Inr b"
  by (simp add: getbit_def Let_def)

lemma bit_set: "n < 8 \<Longrightarrow> bit ((w::byte) OR push_bit n 1) m = (bit w m \<or> m = n)"
  by (auto simp: bit_simps)

lemma bit_set_pow: "n < 8 \<Longrightarrow> bit ((w::byte) OR 2 ^ n) m = (bit w m \<or> m = n)"
  using bit_set [of n w m] by simp

lemma byte_shift_less: "byte_shift g i < 8"
proof -
  have "7 - i mod 8 < (8::nat)" by arith
  then show ?thesis by (simp add: byte_shift_def)
qed

lemma byte_shift_eq_iff: "byte_shift g i = byte_shift g j \<longleftrightarrow> i mod 8 = j mod 8"
  by (auto simp: byte_shift_def)

lemma linear_index_inj:
  fixes w :: nat
  assumes "a < w" "b < w" "c * w + a = d * w + b"
  shows "a = b \<and> c = d"
proof -
  have "(c * w + a) mod w = a" "(d * w + b) mod w = b" using assms(1,2) by simp_all
  then have ab: "a = b" using assms(3) by metis
  then have "c * w = d * w" using assms(3) by simp
  then show ?thesis using ab assms(1) by simp
qed

lemma bit_index_in_range:
  assumes "buffer_size g * 8 \<le> 2 ^ 64"
    and "0 \<le> x" "x < int (buffer_width g)" "0 \<le> y"
    and "(nat y * buffer_width g + nat x) div 8 < buffer_size g"
  shows "bit_index g x y = nat y * buffer_width g + nat x"
proof -
  have lt: "nat y * buffer_width g + nat x < 2 ^ 64" using assms(1,5) by simp
  have w: "0 < buffer_width g" using assms(2,3) by simp
  then have "nat y \<le> nat y * buffer_width g" by simp
  then have y: "nat y < 2 ^ 64" and x: "nat x < 2 ^ 64" using lt by linarith+
  have "to_size_t y = nat y" using y assms(4) by (intro to_size_t_nonneg) simp_all
  moreover have "to_size_t x = nat x" using x assms(2) by (intro to_size_t_nonneg) simp_all
  ultimately show ?thesis using lt by (simp add: bit_index_def)
qed

lemma getbit_in_range:
  assumes "length buf = buffer_size g" "buffer_size g * 8 \<le> 2 ^ 64"
    and "0 \<le> x" "x < int (buffer_width g)" "0 \<le> y"
    and "(nat y * buffer_width g + nat x) div 8 < buffer_size g"
  shows "getbit g buf x y =
    Inr (of_bool (bit (buf ! ((nat y * buffer_width g + nat x) div 8))
      (byte_shift g (nat y * buffer_width g + nat x))))"
proof -
  have i: "bit_index g x y = nat y * buffer_width g + nat x"
    using assms(2-6) by (rule bit_index_in_range)
  have "to_size_t x = nat x"
    using assms by (intro to_size_t_nonneg) simp_all
  then have "\<not> buffer_width g \<le> to_size_t x" using assms(3,4) by simp
  then show ?thesis using assms i by (simp add: getbit_def and_one_bit)
qed

lemma setbit_in_range:
  assumes "length buf = buffer_size g" "buffer_size g * 8 \<le> 2 ^ 64"
    and "0 \<le> x" "x < int (buffer_width g)" "0 \<le> y"
    and "(nat y * buffer_width g + nat x) div 8 < buffer_size g"
  shows "setbit g buf x y =
    Inr (buf[(nat y * buffer_width g + nat x) div 8 :=
      buf ! ((nat y * buffer_width g + nat x) div 8) OR
        push_bit (byte_shift g (nat y * buffer_width g + nat x)) 1])"
proof -
  have i: "bit_index g x y = nat y * buffer_width g + nat x"
    using assms(2-6) by (rule bit_index_in_range)
  have "to_size_t x = nat x"
    using assms by (intro to_size_t_nonneg) simp_all
  then have "\<not> buffer_width g < to_size_t x" using assms(3,4) by simp
  then show ?thesis using assms i by (simp add: setbit_def Let_def)
qed


lemma getbit_guarded:
  assumes "is_int x"
    and "x < 0 \<or> int (buffer_width g) \<le> x \<or> y < 0 \<or>
         buffer_size g \<le> bit_index g x y div 8"
  shows "getbit g buf x y = Inr 0"
proof (cases "x < 0")
  case True
  then show ?thesis by (simp add: getbit_def)
next
  case False
  then have "to_size_t x = nat x" using assms(1) by (simp add: to_size_t_is_int)
  then have "(buffer_width g \<le> to_size_t x) = (int (buffer_width g) \<le> x)"
    using False by auto
  then show ?thesis using assms(2) by (auto simp: getbit_def Let_def)
qed

lemma bit_index_no_wrap:
  assumes "0 \<le> x" "0 \<le> y" "is_int x" "is_int y" "buffer_width g \<le> nat INT_MAX"
  shows "bit_index g x y = nat y * buffer_width g + nat x"
proof -
  have x: "nat x < 2 ^ 31" and y: "nat y < 2 ^ 31" and w: "buffer_width g < 2 ^ 31"
    using assms by (simp_all add: is_int_def INT_MAX_def)
  have "nat y * buffer_width g \<le> 2 ^ 31 * 2 ^ 31"
    using y w by (intro mult_le_mono) simp_all
  then have "nat y * buffer_width g + nat x < 2 ^ 64" using x by simp
  then show ?thesis using assms(1-4)
    by (simp add: bit_index_def to_size_t_is_int)
qed

text \<open>
  Claim C2, as the code has it. \<open>getbit\<close> returns 0 and does not fail, whatever
  \<open>reverse_byte\<close> is and whatever the buffer holds, at every coordinate with \<open>x < 0\<close>,
  \<open>x \<ge> buffer_width\<close> or \<open>y < 0\<close>, and, where \<open>buffer_width\<close> fits an \<open>int\<close>, at every
  coordinate whose linear bit index \<open>y * buffer_width + x\<close> has its byte at or past
  \<open>buffer_size\<close>.
\<close>

theorem getbit_out_of_range:
  assumes "is_int x" and "is_int y"
    and "x < 0 \<or> int (buffer_width g) \<le> x \<or> y < 0 \<or>
         (buffer_width g \<le> nat INT_MAX \<and>
          buffer_size g \<le> (nat y * buffer_width g + nat x) div 8)"
  shows "getbit g buf x y = Inr 0"
proof (cases "x < 0 \<or> int (buffer_width g) \<le> x \<or> y < 0")
  case True
  then show ?thesis using assms(1) by (intro getbit_guarded) auto
next
  case False
  then have w: "buffer_width g \<le> nat INT_MAX"
    and far: "buffer_size g \<le> (nat y * buffer_width g + nat x) div 8"
    using assms(3) by auto
  have "bit_index g x y = nat y * buffer_width g + nat x"
    using False assms(1,2) w by (intro bit_index_no_wrap) auto
  then show ?thesis using far assms(1) by (intro getbit_guarded) simp_all
qed

theorem getbit_out_of_range_witness:
  "is_int 3 \<and> is_int 2 \<and>
   buffer_width (initial_globals\<lparr>buffer_width := 8, buffer_size := 2\<rparr>) \<le> nat INT_MAX \<and>
   buffer_size (initial_globals\<lparr>buffer_width := 8, buffer_size := 2\<rparr>) \<le>
     (nat 2 * buffer_width (initial_globals\<lparr>buffer_width := 8, buffer_size := 2\<rparr>) + nat 3)
       div 8 \<and>
   getbit (initial_globals\<lparr>buffer_width := 8, buffer_size := 2\<rparr>) [255, 255] 3 2 = Inr 0"
proof -
  have i: "is_int 3" "is_int 2" by (simp_all add: is_int_def INT_MAX_def)
  have r: "buffer_width (initial_globals\<lparr>buffer_width := 8, buffer_size := 2\<rparr>) \<le> nat INT_MAX \<and>
    buffer_size (initial_globals\<lparr>buffer_width := 8, buffer_size := 2\<rparr>) \<le>
     (nat 2 * buffer_width (initial_globals\<lparr>buffer_width := 8, buffer_size := 2\<rparr>) + nat 3)
       div 8"
    by (simp add: INT_MAX_def)
  show ?thesis
    using i r getbit_out_of_range [OF i disjI2 [OF disjI2 [OF disjI2 [OF r]]], of "[255, 255]"]
    by simp
qed

text \<open>
  The claim as stated fails where the index wraps: with \<open>2 ^ 61\<close> bits per row and a
  buffer of one byte, the coordinate \<open>(0, 8)\<close> has the linear bit index \<open>2 ^ 64\<close>, far
  past the buffer, and \<open>getbit\<close> computes the index 0 in \<open>size_t\<close> and reads the first
  bit of the buffer.
\<close>

theorem getbit_wrapped_index_counterexample:
  "is_int 0 \<and> is_int 8 \<and>
   buffer_size (initial_globals\<lparr>buffer_width := 2 ^ 61, buffer_size := 1\<rparr>) \<le>
     (nat 8 * buffer_width (initial_globals\<lparr>buffer_width := 2 ^ 61, buffer_size := 1\<rparr>) + nat 0)
       div 8 \<and>
   getbit (initial_globals\<lparr>buffer_width := 2 ^ 61, buffer_size := 1\<rparr>) [128] 0 8 = Inr 1"
  by (simp add: is_int_def INT_MAX_def getbit_def bit_index_def to_size_t_def byte_shift_def
      initial_globals_def)

text \<open>
  Claim C6. For every in-range coordinate \<open>(x, y)\<close> of a buffer, \<open>setbit\<close> succeeds, after
  it \<open>getbit\<close> at \<open>(x, y)\<close> returns 1, and \<open>getbit\<close> at every other in-range
  coordinate returns what it returned before, whatever \<open>reverse_byte\<close> is.
\<close>

theorem setbit_getbit:
  assumes "length buf = buffer_size g" and "buffer_size g * 8 \<le> 2 ^ 64"
    and "0 \<le> x" and "x < int (buffer_width g)" and "0 \<le> y"
    and "(nat y * buffer_width g + nat x) div 8 < buffer_size g"
  shows "\<exists>buf'. setbit g buf x y = Inr buf' \<and> length buf' = length buf \<and>
           getbit g buf' x y = Inr 1 \<and>
           (\<forall>x' y'. 0 \<le> x' \<and> x' < int (buffer_width g) \<and> 0 \<le> y' \<and>
               (nat y' * buffer_width g + nat x') div 8 < buffer_size g \<and>
               (x', y') \<noteq> (x, y) \<longrightarrow>
               getbit g buf' x' y' = getbit g buf x' y')"
proof -
  define i where "i = nat y * buffer_width g + nat x"
  define buf' where "buf' = buf[i div 8 := buf ! (i div 8) OR push_bit (byte_shift g i) 1]"
  have len: "length buf' = buffer_size g" using assms(1) by (simp add: buf'_def)
  have set: "setbit g buf x y = Inr buf'"
    using setbit_in_range [OF assms] by (simp add: buf'_def i_def)
  have i8: "i div 8 < length buf" using assms(1,6) by (simp add: i_def)
  have same: "getbit g buf' x y = Inr 1"
    using getbit_in_range [OF len assms(2-6)] i8
    by (simp add: buf'_def i_def [symmetric] bit_set_pow byte_shift_less)
  have other: "getbit g buf' x' y' = getbit g buf x' y'"
    if r: "0 \<le> x'" "x' < int (buffer_width g)" "0 \<le> y'"
      "(nat y' * buffer_width g + nat x') div 8 < buffer_size g"
      and ne: "(x', y') \<noteq> (x, y)" for x' y'
  proof -
    define j where "j = nat y' * buffer_width g + nat x'"
    have "j \<noteq> i"
    proof
      assume "j = i"
      then have "nat x' = nat x \<and> nat y' = nat y"
        using linear_index_inj [of "nat x'" "buffer_width g" "nat x" "nat y'" "nat y"]
          r(1,2) assms(3,4) by (simp add: i_def j_def)
      then have "x' = x \<and> y' = y" using r(1,3) assms(3,5) by linarith
      then show False using ne by simp
    qed
    then have d: "j div 8 \<noteq> i div 8 \<or> j mod 8 \<noteq> i mod 8"
      by (metis div_mult_mod_eq)
    have "bit (buf' ! (j div 8)) (byte_shift g j) = bit (buf ! (j div 8)) (byte_shift g j)"
    proof (cases "j div 8 = i div 8")
      case True
      then have "byte_shift g j \<noteq> byte_shift g i"
        using d by (simp add: byte_shift_eq_iff)
      then show ?thesis using True i8
        by (simp add: buf'_def bit_set_pow byte_shift_less)
    next
      case False
      then show ?thesis by (simp add: buf'_def)
    qed
    then show ?thesis
      using getbit_in_range [OF len assms(2) r] getbit_in_range [OF assms(1,2) r]
      by (simp add: j_def)
  qed
  have "\<forall>x' y'. 0 \<le> x' \<and> x' < int (buffer_width g) \<and> 0 \<le> y' \<and>
      (nat y' * buffer_width g + nat x') div 8 < buffer_size g \<and> (x', y') \<noteq> (x, y) \<longrightarrow>
      getbit g buf' x' y' = getbit g buf x' y'"
    using other by blast
  moreover have "length buf' = length buf" using len assms(1) by simp
  ultimately have "setbit g buf x y = Inr buf' \<and> length buf' = length buf \<and>
           getbit g buf' x y = Inr 1 \<and>
           (\<forall>x' y'. 0 \<le> x' \<and> x' < int (buffer_width g) \<and> 0 \<le> y' \<and>
               (nat y' * buffer_width g + nat x') div 8 < buffer_size g \<and>
               (x', y') \<noteq> (x, y) \<longrightarrow>
               getbit g buf' x' y' = getbit g buf x' y')"
    using set same by (intro conjI)
  then show ?thesis by (rule exI)
qed

theorem setbit_getbit_witness:
  "length [0, 0 :: byte] = buffer_size (initial_globals\<lparr>buffer_width := 8, buffer_size := 2\<rparr>) \<and>
   setbit (initial_globals\<lparr>buffer_width := 8, buffer_size := 2\<rparr>) [0, 0] 3 1 = Inr [0, 16] \<and>
   getbit (initial_globals\<lparr>buffer_width := 8, buffer_size := 2\<rparr>) [0, 16] 3 1 = Inr 1 \<and>
   getbit (initial_globals\<lparr>buffer_width := 8, buffer_size := 2\<rparr>) [0, 16] 4 1 =
   getbit (initial_globals\<lparr>buffer_width := 8, buffer_size := 2\<rparr>) [0, 0] 4 1"
  using setbit_getbit [of "[0, 0]" "initial_globals\<lparr>buffer_width := 8, buffer_size := 2\<rparr>" 3 1]
  by (simp add: setbit_def initial_globals_def bit_index_def to_size_t_def byte_shift_def)

section \<open>Facts about the glyph table\<close>

lemma shift_in_value:
  assumes "b = 0 \<or> b = 1"
  shows "uint (shift_in index b) = (2 * uint index + b) mod 256"
proof -
  have "push_bit 1 (uint index) OR b = 2 * uint index + b"
  proof (cases "b = 0")
    case True
    then show ?thesis by (simp add: push_bit_eq_mult)
  next
    case False
    then have "b = 1" using assms by simp
    then show ?thesis by (simp add: push_bit_eq_mult or_one_eq)
  qed
  then have "shift_in index b = word_of_int (2 * uint index + b)"
    by (simp only: shift_in_def)
  moreover have "uint (word_of_int k :: byte) = k mod 256" for k
    by (simp add: uint_word_of_int take_bit_eq_mod)
  ultimately show ?thesis by (simp only:)
qed

lemma shift_in_less:
  assumes "b = 0 \<or> b = 1" and "unat index < n" and "n \<le> 64"
  shows "unat (shift_in index b) < 2 * n"
proof -
  have u: "uint index < int n" using assms(2) by (simp only: uint_nat of_nat_less_iff)
  have "0 \<le> uint index" by simp
  then have "0 \<le> 2 * uint index + b" "2 * uint index + b < 2 * int n" "2 * int n \<le> 256"
    using u assms(1,3) by auto
  then have "(2 * uint index + b) mod 256 = 2 * uint index + b"
    "2 * uint index + b < 2 * int n"
    by simp_all
  then have "uint (shift_in index b) < 2 * int n"
    using shift_in_value [OF assms(1), of index] by simp
  then show ?thesis using uint_nonnegative [of "shift_in index b"]
    by (simp only: unat_eq_nat_uint)
qed

lemma read_bits_less:
  assumes "buffer_size g \<le> length buf" and "unat index < n" and "n * 2 ^ length cs \<le> 64"
  shows "\<exists>r. read_bits g buf cs index = Inr r \<and> unat r < n * 2 ^ length cs"
  using assms(2,3)
proof (induction cs arbitrary: index n)
  case Nil
  then show ?case by simp
next
  case (Cons c cs)
  obtain x y where c: "c = (x, y)" by (cases c)
  obtain b where b: "getbit g buf x y = Inr b"
    using getbit_total [OF assms(1)] by blast
  have n: "n \<le> 64"
  proof -
    have "n \<le> n * 2 ^ length (c # cs)" by simp
    then show ?thesis using Cons.prems(2) by (rule le_trans)
  qed
  have "unat (shift_in index b) < 2 * n"
    using getbit_value [OF b] Cons.prems(1) n by (rule shift_in_less)
  moreover have "(2 * n) * 2 ^ length cs \<le> 64" using Cons.prems(2) by (simp add: mult.assoc mult.left_commute)
  ultimately obtain r where "read_bits g buf cs (shift_in index b) = Inr r"
    "unat r < (2 * n) * 2 ^ length cs"
    using Cons.IH by blast
  then show ?case using b c by (simp add: mult.assoc mult.left_commute)
qed

lemma glyph_index_ok:
  assumes "buffer_size g \<le> length buf"
  shows "\<exists>index. glyph_index g buf off_x char_y = Inr index \<and> unat index < 64 \<and>
           glyph index = Inr (sextant_chars ! unat index)"
proof -
  have l: "length sextant_chars = 64" by (simp add: sextant_chars_def)
  obtain r where "glyph_index g buf off_x char_y = Inr r" "unat r < 64"
    unfolding glyph_index_def
    using read_bits_less [OF assms, of 0 1 "[(off_x, char_y * 3), (off_x + 1, char_y * 3),
        (off_x, char_y * 3 + 1), (off_x + 1, char_y * 3 + 1),
        (off_x, char_y * 3 + 2), (off_x + 1, char_y * 3 + 2)]"]
    by auto
  then show ?thesis by (auto simp: glyph_def l)
qed

text \<open>
  Claim C10. For every buffer, column offset and cell row, the index built from six
  \<open>getbit\<close> results is below 64, so the lookup in \<open>sextant_chars\<close> is within the table.
\<close>

theorem glyph_index_in_table:
  assumes "buffer_size g \<le> length buf"
  shows "\<exists>index. glyph_index g buf off_x char_y = Inr index \<and> unat index < 64 \<and>
           glyph index = Inr (sextant_chars ! unat index)"
  using assms by (rule glyph_index_ok)

theorem glyph_index_in_table_witness:
  "buffer_size (initial_globals\<lparr>buffer_width := 8, buffer_size := 3\<rparr>) \<le> length [128, 0, 0 :: byte] \<and>
   (\<exists>index. glyph_index (initial_globals\<lparr>buffer_width := 8, buffer_size := 3\<rparr>) [128, 0, 0] 0 0
        = Inr index \<and> unat index < 64 \<and> glyph index = Inr (sextant_chars ! unat index))"
  using glyph_index_in_table [of "initial_globals\<lparr>buffer_width := 8, buffer_size := 3\<rparr>" "[128, 0, 0]" 0 0]
  by simp

text \<open>
  Claim C7. In the table of 64 glyphs, index 0 is the space, index 63 the full block,
  indices 21 and 42 are the right and left half blocks, which are not sextant characters,
  all other entries are sextant characters, and the 64 code points are pairwise distinct.
\<close>

theorem sextant_chars_table:
  "length sextant_chars = 64 \<and>
   sextant_chars ! 0 = 0x20 \<and> sextant_chars ! 63 = 0x2588 \<and>
   sextant_chars ! 21 = 0x2590 \<and> sextant_chars ! 42 = 0x258C \<and>
   \<not> is_sextant (sextant_chars ! 21) \<and> \<not> is_sextant (sextant_chars ! 42) \<and>
   filter (\<lambda>c. \<not> is_sextant c) sextant_chars = [0x20, 0x2590, 0x258C, 0x2588] \<and>
   distinct sextant_chars"
  by (simp add: sextant_chars_def is_sextant_def)


text \<open>
  Past its two guards \<open>setbit\<close> writes nothing: the call is a no-op for \<open>x < 0\<close>,
  \<open>x > buffer_width\<close>, \<open>y < 0\<close> and a byte index above \<open>buffer_size\<close>.
\<close>

lemma setbit_beyond:
  assumes "is_int x"
    and "x < 0 \<or> int (buffer_width g) < x \<or> y < 0 \<or> buffer_size g < bit_index g x y div 8"
  shows "setbit g buf x y = Inr buf"
proof (cases "x < 0")
  case True
  then show ?thesis by (simp add: setbit_def)
next
  case False
  then have "to_size_t x = nat x" using assms(1) by (simp add: to_size_t_is_int)
  then have "(buffer_width g < to_size_t x) = (int (buffer_width g) < x)"
    using False by auto
  then show ?thesis using assms(2) by (auto simp: setbit_def Let_def)
qed

text \<open>
  Claim C1, at the inputs where \<open>setbit\<close> is not a no-op: a buffer of two bytes and 8
  bits per row. At \<open>x = buffer_width\<close> the guard \<open>x > buffer_width\<close> lets the call through
  and the first bit of the next row is set; at the byte index \<open>buffer_size\<close> the guard
  \<open>byte_index > buffer_size\<close> lets the call through and the write is past the block.
  \<open>getbit\<close> treats both coordinates as out of range.
\<close>

theorem setbit_out_of_range_writes:
  "setbit (initial_globals\<lparr>buffer_width := 8, buffer_size := 2\<rparr>) [0, 0] 8 0 = Inr [0, 128] \<and>
   getbit (initial_globals\<lparr>buffer_width := 8, buffer_size := 2\<rparr>) [0, 255] 8 0 = Inr 0 \<and>
   setbit (initial_globals\<lparr>buffer_width := 8, buffer_size := 2\<rparr>) [0, 0] 0 2 =
     Inl (Crash Out_of_bounds) \<and>
   getbit (initial_globals\<lparr>buffer_width := 8, buffer_size := 2\<rparr>) [0, 0] 0 2 = Inr 0"
  by (simp add: setbit_def getbit_def initial_globals_def bit_index_def to_size_t_def
      byte_shift_def)

section \<open>Facts about the viewport\<close>

lemma set_width_fields:
  "offset (set_width g tw) = offset g" "fd_size (set_width g tw) = fd_size g"
  "buffer_size (set_width g tw) = buffer_size g" "buffer (set_width g tw) = buffer g"
  "col_offset (set_width g tw) = col_offset g"
  by (simp_all add: set_width_def Let_def)

lemma set_width_mod8: "buffer_width (set_width g tw) mod 8 = 0"
  by (simp add: set_width_def Let_def minus_mod_eq_mult_div)

lemma set_width_le:
  assumes "0 \<le> tw" "tw < 2 ^ 16" "buffer_width g \<le> nat INT_MAX"
  shows "buffer_width (set_width g tw) \<le> nat INT_MAX"
proof -
  have "to_size_t (tw * 2) = nat (tw * 2)" using assms(1,2) by (intro to_size_t_nonneg) auto
  then have "to_size_t (tw * 2) \<le> nat INT_MAX" using assms(1,2) by (simp add: INT_MAX_def)
  then show ?thesis using assms(3) by (auto simp: set_width_def Let_def)
qed

lemma resize_fields:
  assumes "resize e g n = Inr g'"
  shows "offset g' = offset g" "fd_size g' = fd_size g" "buffer_size g' = n"
    "buffer_width g' = buffer_width g" "col_offset g' = col_offset g"
    "length (buffer g) = buffer_size g \<Longrightarrow> length (buffer g') = n"
  using assms by (auto simp: resize_def split: if_splits realloc_result.splits)

lemma clamp_offset_fields:
  "fd_size (clamp_offset g) = fd_size g" "buffer_size (clamp_offset g) = buffer_size g"
  "buffer_width (clamp_offset g) = buffer_width g" "col_offset (clamp_offset g) = col_offset g"
  "buffer (clamp_offset g) = buffer g"
  by (simp_all add: clamp_offset_def Let_def)

lemma fetch_fields:
  assumes "fetch e g = Inr g'"
  shows "offset g' = offset g" "fd_size g' = fd_size g" "buffer_size g' = buffer_size g"
    "buffer_width g' = buffer_width g" "col_offset g' = col_offset g"
    "length (buffer g') = length (buffer g)"
  using assms by (auto simp: fetch_def Let_def split: if_splits)

lemma refetch_fields:
  assumes "refetch e g tw th = Inr g'"
  shows "fd_size g' = fd_size g"
    "buffer_width g' = buffer_width (set_width g tw)"
    "buffer_size g' = new_buffer_size (set_width g tw) th"
    "offset g' = offset (clamp_offset (set_width g tw\<lparr>buffer_size := buffer_size g'\<rparr>))"
    "col_offset g' = col_offset g"
    "buffer_offset g' = offset g'" "last_term_w g' = tw" "last_term_h g' = th"
    "length (buffer g) = buffer_size g \<Longrightarrow> length (buffer g') = buffer_size g'"
proof -
  obtain g2 g3 where r: "resize e (set_width g tw) (new_buffer_size (set_width g tw) th) = Inr g2"
    and f: "fetch e (clamp_offset g2) = Inr g3"
    and g': "g' = g3\<lparr>last_term_h := th, last_term_w := tw, buffer_offset := offset g3\<rparr>"
    using assms by (auto simp: refetch_def Let_def split: sum.splits)
  note rf = resize_fields [OF r] and ff = fetch_fields [OF f]
  show "fd_size g' = fd_size g" "buffer_width g' = buffer_width (set_width g tw)"
    "buffer_size g' = new_buffer_size (set_width g tw) th" "col_offset g' = col_offset g"
    "buffer_offset g' = offset g'" "last_term_w g' = tw" "last_term_h g' = th"
    by (simp_all add: g' rf ff clamp_offset_fields set_width_fields)
  show "length (buffer g) = buffer_size g \<Longrightarrow> length (buffer g') = buffer_size g'"
    by (simp add: g' rf ff clamp_offset_fields set_width_fields)
  have "offset (clamp_offset g2) = offset (clamp_offset (set_width g tw\<lparr>buffer_size := buffer_size g2\<rparr>))"
    using rf(1,2,3) by (simp add: clamp_offset_def Let_def)
  then show "offset g' = offset (clamp_offset (set_width g tw\<lparr>buffer_size := buffer_size g'\<rparr>))"
    by (simp add: g' rf ff clamp_offset_fields)
qed

lemma to_size_t_neg: "- (2 ^ 64) \<le> i \<Longrightarrow> i < 0 \<Longrightarrow> int (to_size_t i) = i + 2 ^ 64"
proof -
  assume a: "- (2 ^ 64) \<le> i" "i < 0"
  have "(i + 2 ^ 64) mod 2 ^ 64 = i + 2 ^ 64" using a by (intro mod_pos_pos_trivial) simp_all
  then have "i mod 2 ^ 64 = i + 2 ^ 64" by simp
  then show ?thesis using a by (simp add: to_size_t_def)
qed

lemma to_int_id: "- (2 ^ 31) \<le> x \<Longrightarrow> x < 2 ^ 31 \<Longrightarrow> to_int x = x"
  by (simp add: to_int_def)

lemma to_off_t_id: "- (2 ^ 63) \<le> x \<Longrightarrow> x < 2 ^ 63 \<Longrightarrow> to_off_t x = x"
  by (simp add: to_off_t_def)

lemma to_int_size_t:
  assumes "- (2 ^ 31) \<le> x" "x < 2 ^ 31"
  shows "to_int (int (to_size_t x)) = x"
proof (cases "0 \<le> x")
  case True
  then have "to_size_t x = nat x" using assms by (intro to_size_t_nonneg) simp_all
  then show ?thesis using True assms by (simp add: to_int_id)
next
  case False
  then have "int (to_size_t x) = x + 2 ^ 64" using assms by (intro to_size_t_neg) simp_all
  moreover have "(x + 2 ^ 64 + 2 ^ 31) mod 2 ^ 32 = (x + 2 ^ 31) mod (2 ^ 32 :: int)"
  proof -
    have "(2 ^ 64 :: int) = 2 ^ 32 * 2 ^ 32" by simp
    then have "x + 2 ^ 64 + 2 ^ 31 = (x + 2 ^ 31) + 2 ^ 32 * 2 ^ 32" by simp
    then show ?thesis by (simp only: mod_mult_self2)
  qed
  ultimately show ?thesis using assms by (simp add: to_int_def)
qed

lemma new_buffer_size_le:
  assumes "0 \<le> fd_size g" "fd_size g < 2 ^ 64"
  shows "int (new_buffer_size g th) \<le> fd_size g"
proof -
  have f: "to_size_t (fd_size g) = nat (fd_size g)" using assms by (rule to_size_t_nonneg)
  have "(if a < b then a else b) \<le> a" for a b :: nat by simp
  then have "new_buffer_size g th \<le> nat (fd_size g)"
    unfolding new_buffer_size_def Let_def f .
  then show ?thesis using assms(1) by linarith
qed

lemma ceil8: "(if n mod 8 \<noteq> 0 then n div 8 + 1 else n div 8) = (n + 7) div (8::nat)"
  by presburger

lemma new_buffer_size_eq:
  assumes "0 \<le> th" "th < 2 ^ 16" "buffer_width g \<le> nat INT_MAX"
    and "0 \<le> fd_size g" "fd_size g < 2 ^ 64"
  shows "new_buffer_size g th = min ((nat th * 3 * buffer_width g + 7) div 8) (nat (fd_size g))"
proof -
  have f: "to_size_t (fd_size g) = nat (fd_size g)" using assms(4,5) by (rule to_size_t_nonneg)
  have t: "to_size_t (th * 3) = nat th * 3"
    using assms(1,2) to_size_t_nonneg [of "th * 3"] by (simp add: nat_mult_distrib)
  have "nat th * 3 \<le> 196608" using assms(1,2) by simp
  moreover have "buffer_width g \<le> 2147483647" using assms(3) by (simp add: INT_MAX_def)
  ultimately have "nat th * 3 * buffer_width g \<le> 196608 * 2147483647"
    by (rule mult_le_mono)
  then have "nat th * 3 * buffer_width g < 2 ^ 64" by simp
  then have "(to_size_t (th * 3) * buffer_width g) mod 2 ^ 64 = nat th * 3 * buffer_width g"
    using t by simp
  then show ?thesis unfolding new_buffer_size_def Let_def f ceil8 by (simp add: min_def)
qed

lemma clamp_offset_bounds:
  assumes "0 \<le> fd_size g" "is_off_t (fd_size g)" "is_off_t (offset g)"
    and "int (buffer_size g) \<le> fd_size g"
  shows "0 \<le> offset (clamp_offset g) \<and>
         offset (clamp_offset g) \<le> fd_size g - int (buffer_size g)"
proof -
  have fd: "fd_size g < 2 ^ 63" and off: "- (2 ^ 63) \<le> offset g" "offset g < 2 ^ 63"
    using assms(2,3) by (simp_all add: is_off_t_def)
  have f: "to_size_t (fd_size g) = nat (fd_size g)"
    using assms(1) fd by (intro to_size_t_nonneg) simp_all
  have d: "to_off_t (int (to_size_t (fd_size g - int (buffer_size g)))) =
           fd_size g - int (buffer_size g)"
  proof -
    have "to_size_t (fd_size g - int (buffer_size g)) = nat (fd_size g - int (buffer_size g))"
      using assms(4) fd by (intro to_size_t_nonneg) simp_all
    then show ?thesis using assms(4) fd by (simp add: to_off_t_id)
  qed
  show ?thesis
  proof (cases "to_size_t (fd_size g) < to_size_t (offset g + int (buffer_size g))")
    case True
    then show ?thesis using d assms(4) by (simp add: clamp_offset_def Let_def)
  next
    case False
    show ?thesis
    proof (cases "offset g < 0")
      case True
      then show ?thesis using False assms(4) by (simp add: clamp_offset_def Let_def)
    next
      case nonneg: False
      have "offset g + int (buffer_size g) < 2 ^ 64" using off(2) assms(4) fd by simp
      then have "to_size_t (offset g + int (buffer_size g)) = nat (offset g + int (buffer_size g))"
        using nonneg by (intro to_size_t_nonneg) simp_all
      then have "offset g + int (buffer_size g) \<le> fd_size g"
        using False f nonneg assms(1) by linarith
      then show ?thesis using False nonneg by (simp add: clamp_offset_def Let_def)
    qed
  qed
qed

lemma clamp_col_offset_bounds:
  assumes "0 \<le> tw" "tw < 2 ^ 16" "buffer_width g \<le> nat INT_MAX" "is_int (col_offset g)"
  shows "0 \<le> col_offset (clamp_col_offset g tw)"
    and "2 * tw \<le> int (buffer_width g) \<Longrightarrow>
         col_offset (clamp_col_offset g tw) \<le> int (buffer_width g) - 2 * tw"
    and "int (buffer_width g) < 2 * tw \<Longrightarrow> col_offset (clamp_col_offset g tw) = 0"
proof -
  define d where "d = int (buffer_width g) - tw * 2"
  have bw: "int (buffer_width g) < 2 ^ 31" using assms(3) by (simp add: INT_MAX_def)
  have co: "- (2 ^ 31) \<le> col_offset g" "col_offset g < 2 ^ 31"
    using assms(4) by (simp_all add: is_int_def INT_MAX_def)
  have d: "to_int (int (to_size_t d)) = d"
    using assms(1,2) bw by (intro to_int_size_t) (simp_all add: d_def)
  have s: "int (to_size_t (col_offset g + tw * 2)) =
      (if 0 \<le> col_offset g + tw * 2 then col_offset g + tw * 2 else col_offset g + tw * 2 + 2 ^ 64)"
  proof (cases "0 \<le> col_offset g + tw * 2")
    case True
    then have "to_size_t (col_offset g + tw * 2) = nat (col_offset g + tw * 2)"
      using co assms(2) by (intro to_size_t_nonneg) simp_all
    then show ?thesis using True by simp
  next
    case False
    then show ?thesis using co assms(1) by (simp add: to_size_t_neg)
  qed
  have lt: "(buffer_width g < to_size_t (col_offset g + tw * 2)) =
      (int (buffer_width g) < int (to_size_t (col_offset g + tw * 2)))" by simp
  show "0 \<le> col_offset (clamp_col_offset g tw)"
    by (simp add: clamp_col_offset_def Let_def)
  show "col_offset (clamp_col_offset g tw) \<le> int (buffer_width g) - 2 * tw"
    if "2 * tw \<le> int (buffer_width g)"
    using that co bw assms(1,2) d unfolding clamp_col_offset_def Let_def lt s d_def [symmetric]
    by (auto simp: d_def)
  show "col_offset (clamp_col_offset g tw) = 0" if "int (buffer_width g) < 2 * tw"
    using that co bw assms(1,2) d unfolding clamp_col_offset_def Let_def lt s d_def [symmetric]
    by (auto simp: d_def)
qed

lemma clamp_col_offset_fields:
  "offset (clamp_col_offset g tw) = offset g" "fd_size (clamp_col_offset g tw) = fd_size g"
  "buffer_size (clamp_col_offset g tw) = buffer_size g"
  "buffer_width (clamp_col_offset g tw) = buffer_width g"
  "buffer (clamp_col_offset g tw) = buffer g"
  "buffer_offset (clamp_col_offset g tw) = buffer_offset g"
  "last_term_w (clamp_col_offset g tw) = last_term_w g"
  "last_term_h (clamp_col_offset g tw) = last_term_h g"
  by (simp_all add: clamp_col_offset_def Let_def)

lemma term_size_Some:
  "winsize e = Some (cols, rows) \<Longrightarrow> cols < 2 ^ 16 \<Longrightarrow> rows < 2 ^ 16 \<Longrightarrow>
   term_size e = Inr (int cols, int rows)"
  by (simp add: term_size_def)

lemma update_Inr:
  assumes "update e g = Inr (g', out)" and "term_size e = Inr (tw, th)"
  obtains g1 where "if stale g tw th then refetch e g tw th = Inr g1 else g1 = g"
    and "g' = clamp_col_offset g1 tw"
    and "fetches out = (if stale g tw th then [(offset g', buffer_size g')] else [])"
proof -
  define r where "r = (if stale g tw th then refetch e g tw th else Inr g)"
  have u: "update e g =
    (case r of Inl s \<Rightarrow> Inl s
     | Inr g1 \<Rightarrow>
        (case draw_rows (clamp_col_offset g1 tw) (display_width (clamp_col_offset g1 tw) tw) th 0 of
           Inl s \<Rightarrow> Inl s
         | Inr rows \<Rightarrow>
             Inr (clamp_col_offset g1 tw,
                  \<lparr>fetches = (if stale g tw th
                      then [(offset (clamp_col_offset g1 tw), buffer_size (clamp_col_offset g1 tw))]
                      else []),
                   screen = rows\<rparr>)))"
    by (simp add: update_def assms(2) r_def Let_def split: sum.splits)
  obtain g1 where g1: "r = Inr g1" using u assms(1) by (cases r) simp_all
  obtain rows where
    "draw_rows (clamp_col_offset g1 tw) (display_width (clamp_col_offset g1 tw) tw) th 0 = Inr rows"
    using u assms(1) g1
    by (cases "draw_rows (clamp_col_offset g1 tw) (display_width (clamp_col_offset g1 tw) tw) th 0")
      simp_all
  then have "g' = clamp_col_offset g1 tw"
    "fetches out = (if stale g tw th then [(offset g', buffer_size g')] else [])"
    using u assms(1) g1 by auto
  moreover have "if stale g tw th then refetch e g tw th = Inr g1 else g1 = g"
    using g1 by (auto simp: r_def split: if_splits)
  ultimately show thesis using that by blast
qed

lemma draw_cells_total:
  assumes "buffer_size g \<le> length (buffer g)"
  shows "\<exists>cs. draw_cells g disp_w char_y char_x = Inr cs"
  using assms
proof (induction g disp_w char_y char_x rule: draw_cells.induct)
  case (1 g disp_w char_y char_x)
  note len = "1.prems"
  show ?case
  proof (cases "char_x < disp_w")
    case True
    from glyph_index_ok [OF len, of "col_offset g + char_x * 2" char_y]
    obtain index where i: "glyph_index g (buffer g) (col_offset g + char_x * 2) char_y = Inr index"
      "glyph index = Inr (sextant_chars ! unat index)"
      by blast
    then obtain cs where "draw_cells g disp_w char_y (char_x + 1) = Inr cs"
      using "1.IH" True len by blast
    then show ?thesis using True i by (subst draw_cells.simps) simp
  next
    case False
    then show ?thesis by (subst draw_cells.simps) simp
  qed
qed

lemma draw_rows_total:
  assumes "buffer_size g \<le> length (buffer g)"
  shows "\<exists>rows. draw_rows g disp_w term_h char_y = Inr rows"
  using assms
proof (induction g disp_w term_h char_y rule: draw_rows.induct)
  case (1 g disp_w term_h char_y)
  note len = "1.prems"
  show ?case
  proof (cases "char_y < term_h")
    case True
    obtain row where r: "draw_cells g disp_w char_y 0 = Inr row"
      using draw_cells_total [OF len, of disp_w char_y 0] by auto
    then obtain rows where "draw_rows g disp_w term_h (char_y + 1) = Inr rows"
      using "1.IH" True len by blast
    then show ?thesis using True r by (subst draw_rows.simps) simp
  next
    case False
    then show ?thesis by (subst draw_rows.simps) simp
  qed
qed

lemma update_not_stale:
  assumes "term_size e = Inr (tw, th)" and "\<not> stale g tw th"
    and "buffer_size g \<le> length (buffer g)"
  shows "\<exists>rows. update e g = Inr (clamp_col_offset g tw, \<lparr>fetches = [], screen = rows\<rparr>)"
proof -
  have "buffer_size (clamp_col_offset g tw) \<le> length (buffer (clamp_col_offset g tw))"
    using assms(3) by (simp add: clamp_col_offset_fields)
  then obtain rows where
    "draw_rows (clamp_col_offset g tw) (display_width (clamp_col_offset g tw) tw) th 0 = Inr rows"
    using draw_rows_total [of "clamp_col_offset g tw" "display_width (clamp_col_offset g tw) tw" th 0]
    by auto
  then show ?thesis using assms(1,2) by (simp add: update_def Let_def)
qed

lemma update_fresh:
  assumes "update e g = Inr (g', out)" and "term_size e = Inr (tw, th)"
    and "length (buffer g) = buffer_size g"
  shows "\<not> stale g' tw th" and "length (buffer g') = buffer_size g'"
proof -
  obtain g1 where g1: "if stale g tw th then refetch e g tw th = Inr g1 else g1 = g"
    and g': "g' = clamp_col_offset g1 tw"
    using update_Inr [OF assms(1,2)] by blast
  have "\<not> stale g1 tw th \<and> length (buffer g1) = buffer_size g1"
  proof (cases "stale g tw th")
    case True
    then have "refetch e g tw th = Inr g1" using g1 by simp
    from refetch_fields(6-9) [OF this] assms(3) show ?thesis by (simp add: stale_def)
  next
    case False
    then show ?thesis using g1 assms(3) by simp
  qed
  then show "\<not> stale g' tw th" and "length (buffer g') = buffer_size g'"
    by (simp_all add: g' stale_def clamp_col_offset_fields)
qed


lemma update_bounds:
  assumes "update e g = Inr (g', out)"
    and "winsize e = Some (cols, rows)" and "cols < 2 ^ 16" and "rows < 2 ^ 16"
    and "0 \<le> fd_size g" and "is_off_t (fd_size g)" and "is_off_t (offset g)"
    and "is_int (col_offset g)" and "buffer_width g \<le> nat INT_MAX"
  shows "fd_size g' = fd_size g"
    and "stale g (int cols) (int rows) \<Longrightarrow>
         buffer_size g' = min ((rows * 3 * buffer_width g' + 7) div 8) (nat (fd_size g)) \<and>
         0 \<le> offset g' \<and> offset g' \<le> fd_size g - int (buffer_size g')"
    and "\<not> stale g (int cols) (int rows) \<Longrightarrow>
         buffer_size g' = buffer_size g \<and> offset g' = offset g"
    and "0 \<le> col_offset g'"
    and "2 * int cols \<le> int (buffer_width g') \<Longrightarrow>
         col_offset g' \<le> int (buffer_width g') - 2 * int cols"
    and "int (buffer_width g') < 2 * int cols \<Longrightarrow> col_offset g' = 0"
proof -
  define tw th where "tw = int cols" and "th = int rows"
  have t: "term_size e = Inr (tw, th)"
    using assms(2-4) by (simp add: term_size_Some tw_def th_def)
  obtain g1 where g1: "if stale g tw th then refetch e g tw th = Inr g1 else g1 = g"
    and g': "g' = clamp_col_offset g1 tw"
    using update_Inr [OF assms(1) t] by blast
  have tw: "0 \<le> tw" "tw < 2 ^ 16" and th: "0 \<le> th" "th < 2 ^ 16"
    using assms(3,4) by (simp_all add: tw_def th_def)
  have fd64: "fd_size g < 2 ^ 64" using assms(6) by (simp add: is_off_t_def)
  have w: "buffer_width (set_width g tw) \<le> nat INT_MAX"
    using tw assms(9) by (rule set_width_le)
  have g1f: "fd_size g1 = fd_size g" "col_offset g1 = col_offset g"
    "buffer_width g1 \<le> nat INT_MAX"
    using g1 w assms(9) by (auto simp: refetch_fields split: if_splits)
  show "fd_size g' = fd_size g" by (simp add: g' clamp_col_offset_fields g1f)
  have c: "is_int (col_offset g1)" using assms(8) g1f by simp
  show "0 \<le> col_offset g'"
    unfolding g' using tw g1f(3) c by (rule clamp_col_offset_bounds(1))
  show "col_offset g' \<le> int (buffer_width g') - 2 * int cols"
    if "2 * int cols \<le> int (buffer_width g')"
    using clamp_col_offset_bounds(2) [OF tw g1f(3) c] that
    by (simp add: g' clamp_col_offset_fields tw_def)
  show "col_offset g' = 0" if "int (buffer_width g') < 2 * int cols"
    using clamp_col_offset_bounds(3) [OF tw g1f(3) c] that
    by (simp add: g' clamp_col_offset_fields tw_def)
  show "buffer_size g' = buffer_size g \<and> offset g' = offset g"
    if "\<not> stale g (int cols) (int rows)"
    using that g1 by (simp add: g' clamp_col_offset_fields tw_def th_def)
  show "buffer_size g' = min ((rows * 3 * buffer_width g' + 7) div 8) (nat (fd_size g)) \<and>
         0 \<le> offset g' \<and> offset g' \<le> fd_size g - int (buffer_size g')"
    if "stale g (int cols) (int rows)"
  proof -
    have r: "refetch e g tw th = Inr g1" using that g1 by (simp add: tw_def th_def)
    note rf = refetch_fields [OF r]
    define h where "h = set_width g tw\<lparr>buffer_size := buffer_size g1\<rparr>"
    have "int (buffer_size g1) \<le> fd_size g"
      using new_buffer_size_le [of "set_width g tw" th] assms(5) fd64
      by (simp add: rf(3) set_width_fields)
    then have "0 \<le> offset (clamp_offset h) \<and>
        offset (clamp_offset h) \<le> fd_size h - int (buffer_size h)"
      using assms(5-7) by (intro clamp_offset_bounds) (simp_all add: h_def set_width_fields)
    then have o: "0 \<le> offset g1 \<and> offset g1 \<le> fd_size g - int (buffer_size g1)"
      using rf(4) by (simp add: h_def set_width_fields)
    have "buffer_size g1 =
        min ((nat th * 3 * buffer_width (set_width g tw) + 7) div 8)
          (nat (fd_size (set_width g tw)))"
      unfolding rf(3) using th w assms(5) fd64
      by (intro new_buffer_size_eq) (simp_all add: set_width_fields)
    then have "buffer_size g1 = min ((rows * 3 * buffer_width g1 + 7) div 8) (nat (fd_size g))"
      by (simp add: rf(2) set_width_fields th_def)
    then show ?thesis using o by (simp add: g' clamp_col_offset_fields)
  qed
qed


lemma example_update:
  "update example_env example_globals =
     Inr (example_globals\<lparr>offset := 5, buffer := [2, 3, 4], buffer_size := 3, buffer_offset := 5,
            last_term_w := 5, last_term_h := 1\<rparr>,
          \<lparr>fetches = [(5, 3)], screen = [[32, 32, 129822, 129804]]\<rparr>)"
  by (simp add: update_def example_env_def example_globals_def initial_globals_def
      term_size_def stale_def refetch_def set_width_def new_buffer_size_def resize_def
      clamp_offset_def fetch_def clamp_col_offset_def display_width_def
      to_size_t_def to_int_def to_off_t_def ERROR_def Let_def
      draw_rows.simps draw_cells.simps glyph_index_def glyph_def getbit_def bit_index_def
      byte_shift_def shift_in_def sextant_chars_def)

text \<open>
  \<open>update\<close> returns whenever the terminal answers, \<open>realloc\<close>, \<open>lseek\<close> and \<open>read\<close>
  work, and the file has the size measured when it was opened.
\<close>

lemma refetch_returns:
  assumes "realloc e = Moved" and "lseek_ok e" and "read_ok e"
    and "fd_size g = int (length (source e))" and "is_off_t (fd_size g)"
    and "is_off_t (offset g)" and "length (buffer g) = buffer_size g"
  shows "\<exists>g'. refetch e g tw th = Inr g'"
proof -
  define g1 where "g1 = set_width g tw"
  define n where "n = new_buffer_size g1 th"
  have fd: "0 \<le> fd_size g1" "fd_size g1 < 2 ^ 64" "fd_size g1 = int (length (source e))"
    using assms(4,5) by (simp_all add: g1_def set_width_fields is_off_t_def)
  have n: "int n \<le> fd_size g1" unfolding n_def using fd(1,2) by (rule new_buffer_size_le)
  have "\<exists>g2. resize e g1 n = Inr g2"
    using assms(1) by (simp add: resize_def)
  then obtain g2 where r: "resize e g1 n = Inr g2" by blast
  note rf = resize_fields [OF r]
  have len: "length (buffer g2) = n"
    using rf(6) assms(7) by (simp add: g1_def set_width_fields)
  define g3 where "g3 = clamp_offset g2"
  have "0 \<le> offset g3 \<and> offset g3 \<le> fd_size g2 - int (buffer_size g2)"
    unfolding g3_def using fd(1) assms(5,6) n
    by (intro clamp_offset_bounds) (simp_all add: rf g1_def set_width_fields)
  then have o: "0 \<le> offset g3" "nat (offset g3) + n \<le> length (source e)"
    using fd(3) by (simp_all add: rf) linarith
  have f: "buffer_size g3 = n" "length (buffer g3) = n"
    using len by (simp_all add: g3_def clamp_offset_fields rf)
  have "length (take n (drop (nat (offset g3)) (source e))) = n" using o(2) by simp
  then obtain g4 where "fetch e g3 = Inr g4"
    using assms(2,3) o(1) f by (simp add: fetch_def Let_def)
  then show ?thesis using r by (simp add: refetch_def g1_def n_def g3_def)
qed

lemma update_returns:
  assumes "winsize e = Some (cols, rows)" and "cols < 2 ^ 16" and "rows < 2 ^ 16"
    and "realloc e = Moved" and "lseek_ok e" and "read_ok e"
    and "fd_size g = int (length (source e))" and "is_off_t (fd_size g)"
    and "is_off_t (offset g)" and "length (buffer g) = buffer_size g"
  shows "\<exists>g' out. update e g = Inr (g', out)"
proof -
  have t: "term_size e = Inr (int cols, int rows)"
    using assms(1-3) by (rule term_size_Some)
  show ?thesis
  proof (cases "stale g (int cols) (int rows)")
    case False
    then show ?thesis using update_not_stale [OF t False] assms(10) by fastforce
  next
    case True
    obtain g1 where r: "refetch e g (int cols) (int rows) = Inr g1"
      using refetch_returns [OF assms(4-10)] by blast
    have "length (buffer g1) = buffer_size g1"
      using refetch_fields(9) [OF r assms(10)] .
    then have "buffer_size (clamp_col_offset g1 (int cols)) \<le>
        length (buffer (clamp_col_offset g1 (int cols)))"
      by (simp add: clamp_col_offset_fields)
    then obtain rs where "draw_rows (clamp_col_offset g1 (int cols))
        (display_width (clamp_col_offset g1 (int cols)) (int cols)) (int rows) 0 = Inr rs"
      using draw_rows_total by blast
    then show ?thesis using t True r by (simp add: update_def Let_def)
  qed
qed


text \<open>
  Claim C8. After a call of \<open>update\<close> that returned, a second call with the same
  terminal size and the state as the first call left it issues no \<open>lseek\<close> and no
  \<open>read\<close>: it returns even where both would fail, and leaves buffer and offset as
  they were.
\<close>

theorem update_twice_no_fetch:
  assumes "update e g = Inr (g1, out1)" and "length (buffer g) = buffer_size g"
    and "winsize e' = winsize e"
  shows "\<exists>g2 rows. update e' g1 = Inr (g2, \<lparr>fetches = [], screen = rows\<rparr>) \<and>
           buffer g2 = buffer g1 \<and> offset g2 = offset g1"
proof -
  obtain tw th where t: "term_size e = Inr (tw, th)"
    using assms(1) by (cases "term_size e") (auto simp: update_def)
  then have t': "term_size e' = Inr (tw, th)"
    using assms(3) by (auto simp: term_size_def split: option.splits)
  have "\<not> stale g1 tw th" and "length (buffer g1) = buffer_size g1"
    using update_fresh [OF assms(1) t assms(2)] by simp_all
  then obtain rows where
    "update e' g1 = Inr (clamp_col_offset g1 tw, \<lparr>fetches = [], screen = rows\<rparr>)"
    using update_not_stale [OF t'] by fastforce
  then show ?thesis by (auto simp: clamp_col_offset_fields)
qed

theorem update_twice_no_fetch_witness:
  "length (buffer example_globals) = buffer_size example_globals \<and>
   (\<exists>g2 rows.
      update (example_env\<lparr>lseek_ok := False, read_ok := False\<rparr>)
        (example_globals\<lparr>offset := 5, buffer := [2, 3, 4], buffer_size := 3, buffer_offset := 5,
            last_term_w := 5, last_term_h := 1\<rparr>) =
        Inr (g2, \<lparr>fetches = [], screen = rows\<rparr>) \<and>
      buffer g2 = [2, 3, 4] \<and> offset g2 = 5)"
  using update_twice_no_fetch [OF example_update,
      of "example_env\<lparr>lseek_ok := False, read_ok := False\<rparr>"]
  by (simp add: example_env_def example_globals_def initial_globals_def)

text \<open>
  Claim C4, as the code has it. After a call of \<open>update\<close> that returned, if the call
  re-read the window (terminal size or offset changed since the last fetch) or the offset
  was within bounds before, then \<open>0 \<le> offset \<le> fd_size - buffer_size\<close>; in every case
  \<open>0 \<le> col_offset\<close>, with \<open>col_offset \<le> buffer_width - 2 * term_w\<close> where the buffer is
  at least as wide as the terminal shows, and \<open>col_offset = 0\<close> where it is narrower.
\<close>

theorem update_clamps:
  assumes "update e g = Inr (g', out)"
    and "winsize e = Some (cols, rows)" and "cols < 2 ^ 16" and "rows < 2 ^ 16"
    and "0 \<le> fd_size g" and "is_off_t (fd_size g)" and "is_off_t (offset g)"
    and "is_int (col_offset g)" and "buffer_width g \<le> nat INT_MAX"
    and "stale g (int cols) (int rows) \<or>
         (0 \<le> offset g \<and> offset g \<le> fd_size g - int (buffer_size g))"
  shows "0 \<le> offset g' \<and> offset g' \<le> fd_size g' - int (buffer_size g') \<and>
         0 \<le> col_offset g' \<and>
         (2 * int cols \<le> int (buffer_width g') \<longrightarrow>
            col_offset g' \<le> int (buffer_width g') - 2 * int cols) \<and>
         (int (buffer_width g') < 2 * int cols \<longrightarrow> col_offset g' = 0)"
proof -
  note b = update_bounds [OF assms(1-9)]
  have "0 \<le> offset g' \<and> offset g' \<le> fd_size g' - int (buffer_size g')"
  proof (cases "stale g (int cols) (int rows)")
    case True
    then show ?thesis using b(1,2) by simp
  next
    case False
    then show ?thesis using b(1,3) assms(10) by simp
  qed
  then show ?thesis using b(4,5,6) by blast
qed


theorem update_clamps_witness:
  "stale example_globals 5 1 \<and>
   update example_env example_globals =
     Inr ((example_globals\<lparr>offset := 5, buffer := [2, 3, 4], buffer_size := 3, buffer_offset := 5,
            last_term_w := 5, last_term_h := 1\<rparr>),
          \<lparr>fetches = [(5, 3)], screen = [[32, 32, 129822, 129804]]\<rparr>) \<and>
   0 \<le> offset (example_globals\<lparr>offset := 5, buffer := [2, 3, 4], buffer_size := 3, buffer_offset := 5,
            last_term_w := 5, last_term_h := 1\<rparr>) \<and>
   offset (example_globals\<lparr>offset := 5, buffer := [2, 3, 4], buffer_size := 3, buffer_offset := 5,
            last_term_w := 5, last_term_h := 1\<rparr>) \<le> fd_size example_globals - 3 \<and>
   col_offset (example_globals\<lparr>offset := 5, buffer := [2, 3, 4], buffer_size := 3, buffer_offset := 5,
            last_term_w := 5, last_term_h := 1\<rparr>) = 0"
  using update_clamps [OF example_update, of 5 1]
  by (simp add: example_update)
    (simp add: example_env_def example_globals_def initial_globals_def stale_def
      is_off_t_def is_int_def INT_MAX_def)

text \<open>
  The claim as stated fails where the buffer is narrower than what the terminal shows:
  with 8 bits per row and 5 columns, \<open>col_offset\<close> is 0 after \<open>update\<close> and
  \<open>buffer_width - 2 * term_w\<close> is \<open>- 2\<close>.
\<close>

theorem update_col_offset_counterexample:
  "update example_env example_globals =
     Inr ((example_globals\<lparr>offset := 5, buffer := [2, 3, 4], buffer_size := 3, buffer_offset := 5,
            last_term_w := 5, last_term_h := 1\<rparr>),
          \<lparr>fetches = [(5, 3)], screen = [[32, 32, 129822, 129804]]\<rparr>) \<and>
   \<not> (col_offset (example_globals\<lparr>offset := 5, buffer := [2, 3, 4], buffer_size := 3, buffer_offset := 5,
            last_term_w := 5, last_term_h := 1\<rparr>)
        \<le> int (buffer_width (example_globals\<lparr>offset := 5, buffer := [2, 3, 4], buffer_size := 3, buffer_offset := 5,
            last_term_w := 5, last_term_h := 1\<rparr>)) - 2 * 5)"
  by (simp add: example_update) (simp add: example_globals_def initial_globals_def)

text \<open>
  Claim C5, as the code has it. When \<open>update\<close> re-reads the window, the new
  \<open>buffer_size\<close> is \<open>ceil(term_h * 3 * buffer_width / 8)\<close> capped at \<open>fd_size\<close> only; the
  offset asked for plays no part, and the offset is lowered afterwards so that the window
  fits: \<open>buffer_size \<le> fd_size - offset\<close> holds for the offset after the call.
\<close>

theorem update_window_size:
  assumes "update e g = Inr (g', out)"
    and "winsize e = Some (cols, rows)" and "cols < 2 ^ 16" and "rows < 2 ^ 16"
    and "0 \<le> fd_size g" and "is_off_t (fd_size g)" and "is_off_t (offset g)"
    and "is_int (col_offset g)" and "buffer_width g \<le> nat INT_MAX"
    and "stale g (int cols) (int rows)"
  shows "buffer_size g' = min ((rows * 3 * buffer_width g' + 7) div 8) (nat (fd_size g)) \<and>
         int (buffer_size g') \<le> fd_size g - offset g'"
  using update_bounds(2) [OF assms] by auto


theorem update_window_size_witness:
  "stale example_globals 5 1 \<and>
   buffer_size (example_globals\<lparr>offset := 5, buffer := [2, 3, 4], buffer_size := 3, buffer_offset := 5,
            last_term_w := 5, last_term_h := 1\<rparr>) = min ((1 * 3 * 8 + 7) div 8) (nat (fd_size example_globals)) \<and>
   int (buffer_size (example_globals\<lparr>offset := 5, buffer := [2, 3, 4], buffer_size := 3, buffer_offset := 5,
            last_term_w := 5, last_term_h := 1\<rparr>)) \<le> fd_size example_globals - offset (example_globals\<lparr>offset := 5, buffer := [2, 3, 4], buffer_size := 3, buffer_offset := 5,
            last_term_w := 5, last_term_h := 1\<rparr>)"
  using update_window_size [OF example_update, of 5 1]
  by (simp add: example_env_def example_globals_def initial_globals_def stale_def
      is_off_t_def is_int_def INT_MAX_def)

text \<open>
  The claim as stated fails at an offset near the end of the file: with 8 bytes in the
  file and offset 7 asked for, one byte remains, and \<open>update\<close> makes a window of 3 bytes
  at offset 5.
\<close>

theorem update_window_size_counterexample:
  "update example_env example_globals =
     Inr ((example_globals\<lparr>offset := 5, buffer := [2, 3, 4], buffer_size := 3, buffer_offset := 5,
            last_term_w := 5, last_term_h := 1\<rparr>),
          \<lparr>fetches = [(5, 3)], screen = [[32, 32, 129822, 129804]]\<rparr>) \<and>
   \<not> (int (buffer_size (example_globals\<lparr>offset := 5, buffer := [2, 3, 4], buffer_size := 3, buffer_offset := 5,
            last_term_w := 5, last_term_h := 1\<rparr>)) \<le> fd_size example_globals - offset example_globals)"
  by (simp add: example_update) (simp add: example_globals_def initial_globals_def)

section \<open>Facts about the automaton\<close>









































section \<open>Facts about the exit status\<close>

lemma parse_args_exit:
  "parse_args st cmd args g = Inl s \<Longrightarrow> \<exists>cause. s = Exit 0 (cause @ usage_text cmd)"
proof (induction args arbitrary: g)
  case Nil
  then show ?case by simp
next
  case (Cons a as)
  then show ?case
    by (auto simp: Let_def usage_def split: if_splits)
qed

lemma ERROR_exit: "\<exists>m. ERROR e msg = Exit (- 1) [m]"
  by (simp add: ERROR_def split: option.splits)

lemma getbit_stop: "getbit g buf x y = Inl s \<Longrightarrow> \<exists>c. s = Crash c"
  by (auto simp: getbit_def Let_def split: if_splits)

lemma read_bits_stop: "read_bits g buf cs index = Inl s \<Longrightarrow> \<exists>c. s = Crash c"
proof (induction cs arbitrary: index)
  case Nil
  then show ?case by simp
next
  case (Cons a cs)
  obtain x y where a: "a = (x, y)" by (cases a)
  show ?case
  proof (cases "getbit g buf x y")
    case (Inl t)
    then show ?thesis using Cons.prems a getbit_stop by auto
  next
    case (Inr b)
    then show ?thesis using Cons.prems a Cons.IH by auto
  qed
qed

lemma glyph_stop: "glyph index = Inl s \<Longrightarrow> \<exists>c. s = Crash c"
  by (auto simp: glyph_def split: if_splits)

lemma draw_cells_stop:
  "draw_cells g disp_w char_y char_x = Inl s \<Longrightarrow> \<exists>c. s = Crash c"
proof (induction g disp_w char_y char_x rule: draw_cells.induct)
  case (1 g disp_w char_y char_x)
  show ?case
  proof (cases "char_x < disp_w")
    case False
    then show ?thesis using "1.prems" by (subst (asm) draw_cells.simps) simp
  next
    case True
    show ?thesis
    proof (cases "glyph_index g (buffer g) (col_offset g + char_x * 2) char_y")
      case (Inl t)
      then have "s = t" using "1.prems" True by (subst (asm) draw_cells.simps) simp
      moreover have "\<exists>c. t = Crash c"
        using Inl unfolding glyph_index_def by (rule read_bits_stop)
      ultimately show ?thesis by simp
    next
      case (Inr index)
      show ?thesis
      proof (cases "glyph index")
        case (Inl t)
        then have "s = t" using "1.prems" True Inr by (subst (asm) draw_cells.simps) simp
        then show ?thesis using Inl glyph_stop by auto
      next
        case c: (Inr c)
        then have "draw_cells g disp_w char_y (char_x + 1) = Inl s"
          using "1.prems" True Inr
          by (subst (asm) draw_cells.simps) (simp split: sum.splits)
        then show ?thesis using "1.IH" [OF True Inr c] by simp
      qed
    qed
  qed
qed

lemma draw_rows_stop:
  "draw_rows g disp_w term_h char_y = Inl s \<Longrightarrow> \<exists>c. s = Crash c"
proof (induction g disp_w term_h char_y rule: draw_rows.induct)
  case (1 g disp_w term_h char_y)
  show ?case
  proof (cases "char_y < term_h")
    case False
    then show ?thesis using "1.prems" by (subst (asm) draw_rows.simps) simp
  next
    case True
    show ?thesis
    proof (cases "draw_cells g disp_w char_y 0")
      case (Inl t)
      then have "s = t" using "1.prems" True by (subst (asm) draw_rows.simps) simp
      then show ?thesis using Inl draw_cells_stop by auto
    next
      case (Inr row)
      then have "draw_rows g disp_w term_h (char_y + 1) = Inl s"
        using "1.prems" True
        by (subst (asm) draw_rows.simps) (simp split: sum.splits)
      then show ?thesis using "1.IH" [OF True Inr] by simp
    qed
  qed
qed

lemma refetch_stop:
  "refetch e g tw th = Inl s \<Longrightarrow> (\<exists>m. s = Exit (- 1) [m]) \<or> (\<exists>c. s = Crash c)"
  using ERROR_exit [of e]
  by (auto simp: refetch_def resize_def fetch_def Let_def
      split: sum.splits if_splits realloc_result.splits)

lemma update_stop:
  assumes "update e g = Inl s"
  shows "(\<exists>m. s = Exit (- 1) [m]) \<or> (\<exists>c. s = Crash c)"
proof (cases "term_size e")
  case (Inl t)
  then have "s = t" using assms by (simp add: update_def)
  then show ?thesis using Inl ERROR_exit [of e]
    by (auto simp: term_size_def split: option.splits)
next
  case (Inr p)
  obtain tw th where p: "p = (tw, th)" by (cases p)
  define r where "r = (if stale g tw th then refetch e g tw th else Inr g)"
  show ?thesis
  proof (cases r)
    case (Inl t)
    then have "s = t" using assms Inr p by (simp add: update_def r_def)
    moreover have "refetch e g tw th = Inl t" using Inl by (simp add: r_def split: if_splits)
    ultimately show ?thesis using refetch_stop by blast
  next
    case g1: (Inr g1)
    then have "draw_rows (clamp_col_offset g1 tw)
        (display_width (clamp_col_offset g1 tw) tw) th 0 = Inl s"
      using assms Inr p by (simp add: update_def r_def Let_def split: sum.splits)
    then show ?thesis using draw_rows_stop by blast
  qed
qed

lemma parse_args_append:
  "parse_args st cmd (pre @ post) g =
     (case parse_args st cmd pre g of
        Inl s \<Rightarrow> Inl s
      | Inr g' \<Rightarrow> parse_args st cmd post g')"
  by (induction pre arbitrary: g) (simp_all add: Let_def)

lemma parse_args_causes:
  "parse_args st cmd args g = Inl s \<Longrightarrow>
   \<exists>cause \<in> set [[], [''Width error: ''], [''Width is not even multiple of 8''],
       [''Offset error: ''], [''Offset negative''], [''Delay error: ''],
       [''Path error: ''], [''File size error: '']].
     s = Exit 0 (cause @ usage_text cmd)"
proof (induction args arbitrary: g)
  case Nil
  then show ?case by simp
next
  case (Cons a as)
  then show ?case
    by (simp add: Let_def usage_def split: if_splits)
qed

lemma main_argument_exit:
  assumes "parse_args st cmd pre initial_globals = Inr g0"
    and "parse_args st cmd (a # post) g0 = Inl s"
  shows "main st (cmd # pre @ a # post) e turns = Inl s"
  using assms by (simp add: main_def parse_args_append)

lemma to_off_t_negative:
  assumes "n < 2 ^ 64" and "2 ^ 63 \<le> n"
  shows "to_off_t (int n) < 0"
proof -
  have "(int n + 2 ^ 63) mod 2 ^ 64 = int n + 2 ^ 63 - 2 ^ 64"
    using assms by (simp add: mod_pos_geq)
  then show ?thesis using assms by (simp add: to_off_t_def)
qed

lemma ERROR_lines:
  "ERROR e msg = Exit (- 1) [case term_reset_error e of None \<Rightarrow> msg | Some m \<Rightarrow> m]"
  by (simp add: ERROR_def split: option.splits)

lemma update_no_winsize:
  "winsize e = None \<Longrightarrow> update e g = Inl (ERROR e ''Error geting terminal size: '')"
  by (simp add: update_def term_size_def)

lemma update_realloc_null:
  assumes "term_size e = Inr (tw, th)" and "stale g tw th"
    and "new_buffer_size (set_width g tw) th \<noteq> buffer_size g"
  shows "realloc e = Failed \<or>
           realloc e = Freed \<and> new_buffer_size (set_width g tw) th \<noteq> 0 \<Longrightarrow>
         update e g = Inl (ERROR e ''Memory allocation error: '')"
    and "realloc e = Freed \<and> new_buffer_size (set_width g tw) th = 0 \<Longrightarrow>
         update e g = Inl (Crash Double_free)"
  using assms
  by (auto simp: update_def refetch_def resize_def set_width_fields Let_def)

lemma clamp_offset_nonneg: "0 \<le> offset (clamp_offset g)"
  by (simp add: clamp_offset_def Let_def)

lemma clamp_offset_cong:
  assumes "offset g = offset g'" and "fd_size g = fd_size g'"
    and "buffer_size g = buffer_size g'"
  shows "offset (clamp_offset g) = offset (clamp_offset g')"
  using assms by (simp add: clamp_offset_def Let_def)

lemma resize_cases:
  assumes "realloc e = Moved \<or> n = buffer_size g"
  shows "\<exists>g2. resize e g n = Inr g2 \<and> buffer_size g2 = n \<and>
           offset g2 = offset g \<and> fd_size g2 = fd_size g"
  using assms by (cases "n = buffer_size g") (auto simp: resize_def)

lemma update_seek_error:
  assumes "term_size e = Inr (tw, th)" and "stale g tw th"
    and "realloc e = Moved \<or> new_buffer_size (set_width g tw) th = buffer_size g"
    and "\<not> lseek_ok e"
  shows "update e g = Inl (ERROR e ''File seek error: '')"
proof -
  have "realloc e = Moved \<or>
      new_buffer_size (set_width g tw) th = buffer_size (set_width g tw)"
    using assms(3) by (simp add: set_width_fields)
  then obtain g2 where
    "resize e (set_width g tw) (new_buffer_size (set_width g tw) th) = Inr g2"
    using resize_cases by blast
  then show ?thesis
    using assms(1,2,4) by (simp add: update_def refetch_def fetch_def Let_def)
qed

lemma update_read_error:
  assumes "term_size e = Inr (tw, th)" and "stale g tw th"
    and "realloc e = Moved \<or> new_buffer_size (set_width g tw) th = buffer_size g"
    and "lseek_ok e"
    and "\<not> read_ok e \<or>
         length (source e) -
           nat (offset (clamp_offset
             (set_width g tw\<lparr>buffer_size := new_buffer_size (set_width g tw) th\<rparr>))) <
         new_buffer_size (set_width g tw) th"
  shows "update e g = Inl (ERROR e ''File read error: '')"
proof -
  define n where "n = new_buffer_size (set_width g tw) th"
  have "realloc e = Moved \<or> n = buffer_size (set_width g tw)"
    using assms(3) by (simp add: set_width_fields n_def)
  then obtain g2 where r: "resize e (set_width g tw) n = Inr g2" and g2: "buffer_size g2 = n"
    "offset g2 = offset (set_width g tw)" "fd_size g2 = fd_size (set_width g tw)"
    using resize_cases by blast
  have o: "offset (clamp_offset g2) =
      offset (clamp_offset (set_width g tw\<lparr>buffer_size := n\<rparr>))"
    by (rule clamp_offset_cong) (simp_all add: g2)
  have "\<not> read_ok e \<or>
      length (take n (drop (nat (offset (clamp_offset g2))) (source e))) \<noteq> n"
    using assms(5) unfolding n_def [symmetric] o by auto
  then have "fetch e (clamp_offset g2) = Inl (ERROR e ''File read error: '')"
    using assms(4) clamp_offset_nonneg [of g2]
    by (simp add: fetch_def Let_def clamp_offset_fields g2 del: length_take)
  then show ?thesis
    using assms(1,2) r by (simp add: update_def refetch_def n_def Let_def)
qed

lemma fetch_exits:
  assumes "fetch e g = Inl s" and "buffer_size g \<le> length (buffer g)"
  shows "s = ERROR e ''File seek error: '' \<or> s = ERROR e ''File read error: ''"
  using assms by (auto simp: fetch_def Let_def split: if_splits)

lemma refetch_exits:
  assumes "refetch e g tw th = Inl s" and "length (buffer g) = buffer_size g"
  shows "s = ERROR e ''Memory allocation error: '' \<and> (realloc e = Failed \<or> realloc e = Freed) \<or>
         s = Crash Double_free \<and> realloc e = Freed \<or>
         s = ERROR e ''File seek error: '' \<or> s = ERROR e ''File read error: ''"
proof (cases "resize e (set_width g tw) (new_buffer_size (set_width g tw) th)")
  case (Inl t)
  then have "s = t" using assms(1) by (simp add: refetch_def Let_def)
  then show ?thesis
    using Inl by (auto simp: resize_def split: if_splits realloc_result.splits)
next
  case (Inr g2)
  have "length (buffer (set_width g tw)) = buffer_size (set_width g tw)"
    using assms(2) by (simp add: set_width_fields)
  then have "length (buffer g2) = buffer_size g2"
    using resize_fields(3,6) [OF Inr] by simp
  then have "buffer_size (clamp_offset g2) \<le> length (buffer (clamp_offset g2))"
    by (simp add: clamp_offset_fields)
  moreover have "fetch e (clamp_offset g2) = Inl s"
    using assms(1) Inr by (simp add: refetch_def Let_def split: sum.splits)
  ultimately show ?thesis using fetch_exits by blast
qed

lemma update_exits:
  assumes "update e g = Inl s" and "length (buffer g) = buffer_size g"
  shows "s = ERROR e ''Error geting terminal size: '' \<and> winsize e = None \<or>
         s = ERROR e ''Memory allocation error: '' \<and> (realloc e = Failed \<or> realloc e = Freed) \<or>
         s = Crash Double_free \<and> realloc e = Freed \<or>
         s = ERROR e ''File seek error: '' \<or> s = ERROR e ''File read error: ''"
proof (cases "term_size e")
  case (Inl t)
  then have "s = t" using assms(1) by (simp add: update_def)
  then show ?thesis using Inl by (auto simp: term_size_def split: option.splits)
next
  case (Inr p)
  obtain tw th where p: "p = (tw, th)" by (cases p)
  define r where "r = (if stale g tw th then refetch e g tw th else Inr g)"
  show ?thesis
  proof (cases r)
    case (Inl t)
    then have "s = t" using assms(1) Inr p by (simp add: update_def r_def)
    moreover have "refetch e g tw th = Inl t" using Inl by (simp add: r_def split: if_splits)
    ultimately show ?thesis using refetch_exits [OF _ assms(2)] by blast
  next
    case g1: (Inr g1)
    then have d: "draw_rows (clamp_col_offset g1 tw)
        (display_width (clamp_col_offset g1 tw) tw) th 0 = Inl s"
      using assms(1) Inr p by (simp add: update_def r_def Let_def split: sum.splits)
    have "length (buffer g1) = buffer_size g1"
    proof (cases "stale g tw th")
      case True
      then have "refetch e g tw th = Inr g1" using g1 by (simp add: r_def)
      then show ?thesis using refetch_fields(9) assms(2) by blast
    next
      case False
      then show ?thesis using g1 assms(2) by (simp add: r_def)
    qed
    then have "buffer_size (clamp_col_offset g1 tw) \<le> length (buffer (clamp_col_offset g1 tw))"
      by (simp add: clamp_col_offset_fields)
    then show ?thesis using draw_rows_total d by (metis sum.distinct(1))
  qed
qed

lemma run_setup_error:
  "term_setup_error e = Some m \<Longrightarrow> run e turns g = Inl (Exit (- 1) [m])"
  by (simp add: run_def)

lemma run_update_error:
  "term_setup_error e = None \<Longrightarrow> update e g = Inl s \<Longrightarrow> run e turns g = Inl s"
  by (simp add: run_def)

lemma main_run:
  "parse_args st cmd args initial_globals = Inr g \<Longrightarrow> 0 \<le> fd g \<Longrightarrow>
   main st (cmd # args) e turns = run e turns g"
  by (simp add: main_def)

lemma run_loop_quit:
  assumes "term_reset_error e = None" and "key = 0x1b \<or> key = 0x71 \<or> key = 0x51"
  shows "run_loop ((e, Keys [key]) # turns) g = Inl (Exit 0 [])"
  using assms by (auto simp: key_action_def leave_def Let_def)

lemma run_loop_leave:
  assumes "term_reset_error e = None"
  shows "run_loop ((e, Read_error) # turns) g = Inl (Exit 0 [])"
    and "run_loop ((e, Interrupt) # turns) g = Inl (Exit 0 [])"
  using assms by (simp_all add: leave_def)

lemma run_loop_update_error:
  assumes "key_action g (take 8 input) = Redraw g1" and "update e (disarm g1) = Inl s"
  shows "run_loop ((e, Keys input) # turns) g = Inl s"
  using assms by simp

lemma stream_loop_end:
  assumes "term_size e = Inr (tw, th)" and "realloc e = Moved"
  shows "length bs < buffer_width (set_width g tw) div 8 * 3 \<Longrightarrow>
         stream_loop block ((e, Keys bs) # turns) g = Inl (Exit 0 [])"
    and "stream_loop block ((e, Interrupt) # turns) g = Inl (Exit 0 [])"
  using assms by (simp_all add: Let_def)

lemma stream_loop_realloc_null:
  assumes "term_size e = Inr (tw, th)"
  shows "realloc e = Failed \<or>
           realloc e = Freed \<and> \<not> (block \<and> buffer_width (set_width g tw) div 8 * 3 = 0) \<Longrightarrow>
         stream_loop block ((e, ev) # turns) g =
           Inl (Exit (- 1) [''Memory allocation error: ''])"
    and "realloc e = Freed \<and> block \<and> buffer_width (set_width g tw) div 8 * 3 = 0 \<Longrightarrow>
         stream_loop block ((e, ev) # turns) g = Inl (Crash Double_free)"
  using assms by (auto simp: Let_def)

lemma stream_loop_no_winsize:
  "winsize e = None \<Longrightarrow>
   stream_loop block ((e, ev) # turns) g = Inl (ERROR e ''Error geting terminal size: '')"
  by (simp add: term_size_def)

lemma example_parse:
  "parse_args example_startup ''bitraster'' [''-w7''] initial_globals =
     Inl (Exit 0 (''Width is not even multiple of 8'' # usage_text ''bitraster''))"
  by (simp add: example_startup_def usage_def)

text \<open>
  Claim C9, as the code has it. Every exit while the arguments are read is \<open>exit(0)\<close>,
  at the end of \<open>usage\<close>: after the usage text alone for \<open>-h\<close> and for a second path, and
  after one line with the cause and the usage text for a value of \<open>-w\<close>, \<open>-o\<close> or \<open>-d\<close>
  that \<open>strtoul\<close> refuses, a width that is no multiple of 8, a negative offset, a path
  that cannot be opened and a file that cannot be sized; whatever follows the argument on
  the command line. \<open>update\<close> leaves with status \<open>- 1\<close> after one line (the cause, or the
  terminal call that failed in \<open>term_reset\<close>) when the terminal size cannot be read, when
  \<open>realloc\<close> returns a null pointer and leaves the block, when \<open>lseek\<close> fails and when
  \<open>read\<close> fails or comes short, and in a state whose block has \<open>buffer_size\<close> bytes it
  stops in no other way, but for one: where \<open>realloc\<close> frees the block and returns a null
  pointer, \<open>free(buffer)\<close> frees it a second time and there is no exit status. \<open>run\<close>
  leaves with \<open>- 1\<close> when \<open>term_setup\<close> fails, and passes on what \<open>update\<close> leaves with,
  at the start and after a key. The loop of \<open>run\<close> ends with status 0 on Escape, \<open>q\<close>, \<open>Q\<close>,
  a failed read of the keyboard and \<open>SIGINT\<close> where the terminal can be reset, and with
  \<open>- 1\<close> where it cannot. The loop of \<open>stream\<close> ends with status 0 on \<open>SIGINT\<close> and when a
  read does not fill the buffer, with \<open>- 1\<close> after one line when \<open>realloc\<close> returns a null
  pointer and leaves the block, and by the second \<open>free\<close> when \<open>realloc\<close> had freed it.
\<close>

theorem exit_codes:
  "(\<forall>st cmd args e turns s. parse_args st cmd args initial_globals = Inl s \<longrightarrow>
      main st (cmd # args) e turns = Inl s \<and>
      (\<exists>cause \<in> set [[], [''Width error: ''], [''Width is not even multiple of 8''],
           [''Offset error: ''], [''Offset negative''], [''Delay error: ''],
           [''Path error: ''], [''File size error: '']].
         s = Exit 0 (cause @ usage_text cmd))) \<and>
   (\<forall>st cmd pre g0 post e turns. parse_args st cmd pre initial_globals = Inr g0 \<longrightarrow>
      main st (cmd # pre @ ''-h'' # post) e turns = Inl (Exit 0 (usage_text cmd)) \<and>
      (\<forall>v. snd (strtoul st v) \<longrightarrow>
         main st (cmd # pre @ (''-w'' @ v) # post) e turns =
           Inl (Exit 0 (''Width error: '' # usage_text cmd)) \<and>
         main st (cmd # pre @ (''-o'' @ v) # post) e turns =
           Inl (Exit 0 (''Offset error: '' # usage_text cmd)) \<and>
         main st (cmd # pre @ (''-d'' @ v) # post) e turns =
           Inl (Exit 0 (''Delay error: '' # usage_text cmd))) \<and>
      (\<forall>v. \<not> snd (strtoul st v) \<and> fst (strtoul st v) mod 2 ^ 64 mod 8 \<noteq> 0 \<longrightarrow>
         main st (cmd # pre @ (''-w'' @ v) # post) e turns =
           Inl (Exit 0 (''Width is not even multiple of 8'' # usage_text cmd))) \<and>
      (\<forall>v. \<not> snd (strtoul st v) \<and> 2 ^ 63 \<le> fst (strtoul st v) mod 2 ^ 64 \<longrightarrow>
         main st (cmd # pre @ (''-o'' @ v) # post) e turns =
           Inl (Exit 0 (''Offset negative'' # usage_text cmd))) \<and>
      (\<forall>p. p \<noteq> ''-h'' \<and> p \<noteq> ''-r'' \<and> take 2 p \<notin> {''-w'', ''-o'', ''-d''} \<longrightarrow>
         (fd g0 < 0 \<and> open_path st p < 0 \<longrightarrow>
            main st (cmd # pre @ p # post) e turns =
              Inl (Exit 0 (''Path error: '' # usage_text cmd))) \<and>
         (fd g0 < 0 \<and> 0 \<le> open_path st p \<and> seek_end st (open_path st p) < 0 \<longrightarrow>
            main st (cmd # pre @ p # post) e turns =
              Inl (Exit 0 (''File size error: '' # usage_text cmd))) \<and>
         (0 \<le> fd g0 \<longrightarrow>
            main st (cmd # pre @ p # post) e turns = Inl (Exit 0 (usage_text cmd))))) \<and>
   (\<forall>e msg. ERROR e msg =
      Exit (- 1) [case term_reset_error e of None \<Rightarrow> msg | Some m \<Rightarrow> m]) \<and>
   (\<forall>e g. winsize e = None \<longrightarrow>
      update e g = Inl (ERROR e ''Error geting terminal size: '')) \<and>
   (\<forall>e g tw th. term_size e = Inr (tw, th) \<and> stale g tw th \<longrightarrow>
      (new_buffer_size (set_width g tw) th \<noteq> buffer_size g \<and>
       (realloc e = Failed \<or>
        realloc e = Freed \<and> new_buffer_size (set_width g tw) th \<noteq> 0) \<longrightarrow>
         update e g = Inl (ERROR e ''Memory allocation error: '')) \<and>
      (new_buffer_size (set_width g tw) th \<noteq> buffer_size g \<and>
       realloc e = Freed \<and> new_buffer_size (set_width g tw) th = 0 \<longrightarrow>
         update e g = Inl (Crash Double_free)) \<and>
      ((realloc e = Moved \<or> new_buffer_size (set_width g tw) th = buffer_size g) \<and>
       \<not> lseek_ok e \<longrightarrow>
         update e g = Inl (ERROR e ''File seek error: '')) \<and>
      ((realloc e = Moved \<or> new_buffer_size (set_width g tw) th = buffer_size g) \<and>
       lseek_ok e \<and>
       (\<not> read_ok e \<or>
        length (source e) -
          nat (offset (clamp_offset
            (set_width g tw\<lparr>buffer_size := new_buffer_size (set_width g tw) th\<rparr>))) <
        new_buffer_size (set_width g tw) th) \<longrightarrow>
         update e g = Inl (ERROR e ''File read error: ''))) \<and>
   (\<forall>e g s. update e g = Inl s \<and> length (buffer g) = buffer_size g \<longrightarrow>
      s = ERROR e ''Error geting terminal size: '' \<and> winsize e = None \<or>
      s = ERROR e ''Memory allocation error: '' \<and> (realloc e = Failed \<or> realloc e = Freed) \<or>
      s = Crash Double_free \<and> realloc e = Freed \<or>
      s = ERROR e ''File seek error: '' \<or> s = ERROR e ''File read error: '') \<and>
   (\<forall>e turns g m. term_setup_error e = Some m \<longrightarrow> run e turns g = Inl (Exit (- 1) [m])) \<and>
   (\<forall>e turns g s. term_setup_error e = None \<and> update e g = Inl s \<longrightarrow>
      run e turns g = Inl s) \<and>
   (\<forall>st cmd args g e turns. parse_args st cmd args initial_globals = Inr g \<and> 0 \<le> fd g \<longrightarrow>
      main st (cmd # args) e turns = run e turns g) \<and>
   (\<forall>e turns g input g1 s.
      key_action g (take 8 input) = Redraw g1 \<and> update e (disarm g1) = Inl s \<longrightarrow>
      run_loop ((e, Keys input) # turns) g = Inl s) \<and>
   (\<forall>e turns g. term_reset_error e = None \<longrightarrow>
      run_loop ((e, Keys [0x1b]) # turns) g = Inl (Exit 0 []) \<and>
      run_loop ((e, Keys [0x71]) # turns) g = Inl (Exit 0 []) \<and>
      run_loop ((e, Keys [0x51]) # turns) g = Inl (Exit 0 []) \<and>
      run_loop ((e, Read_error) # turns) g = Inl (Exit 0 []) \<and>
      run_loop ((e, Interrupt) # turns) g = Inl (Exit 0 [])) \<and>
   (\<forall>e turns g m. term_reset_error e = Some m \<longrightarrow>
      run_loop ((e, Keys [0x71]) # turns) g = Inl (Exit (- 1) [m]) \<and>
      run_loop ((e, Interrupt) # turns) g = Inl (Exit (- 1) [m])) \<and>
   (\<forall>e turns g block tw th. term_size e = Inr (tw, th) \<longrightarrow>
      (realloc e = Moved \<longrightarrow>
         stream_loop block ((e, Interrupt) # turns) g = Inl (Exit 0 []) \<and>
         (\<forall>bs. length bs < buffer_width (set_width g tw) div 8 * 3 \<longrightarrow>
            stream_loop block ((e, Keys bs) # turns) g = Inl (Exit 0 []))) \<and>
      (\<forall>ev. realloc e = Failed \<or>
            realloc e = Freed \<and>
            \<not> (block \<and> buffer_width (set_width g tw) div 8 * 3 = 0) \<longrightarrow>
         stream_loop block ((e, ev) # turns) g =
           Inl (Exit (- 1) [''Memory allocation error: ''])) \<and>
      (\<forall>ev. realloc e = Freed \<and> block \<and>
            buffer_width (set_width g tw) div 8 * 3 = 0 \<longrightarrow>
         stream_loop block ((e, ev) # turns) g = Inl (Crash Double_free))) \<and>
   (\<forall>st cmd args g e turns. parse_args st cmd args initial_globals = Inr g \<and> fd g < 0 \<longrightarrow>
      main st (cmd # args) e turns = stream_loop False turns g)"
proof -
  have 1: "main st (cmd # args) e turns = Inl s \<and>
      (\<exists>cause \<in> set [[], [''Width error: ''], [''Width is not even multiple of 8''],
           [''Offset error: ''], [''Offset negative''], [''Delay error: ''],
           [''Path error: ''], [''File size error: '']].
         s = Exit 0 (cause @ usage_text cmd))"
    if "parse_args st cmd args initial_globals = Inl s" for st cmd args e turns s
    using that parse_args_causes [OF that] by (simp add: main_def)
  have 2: "main st (cmd # pre @ ''-h'' # post) e turns = Inl (Exit 0 (usage_text cmd)) \<and>
      (\<forall>v. snd (strtoul st v) \<longrightarrow>
         main st (cmd # pre @ (''-w'' @ v) # post) e turns =
           Inl (Exit 0 (''Width error: '' # usage_text cmd)) \<and>
         main st (cmd # pre @ (''-o'' @ v) # post) e turns =
           Inl (Exit 0 (''Offset error: '' # usage_text cmd)) \<and>
         main st (cmd # pre @ (''-d'' @ v) # post) e turns =
           Inl (Exit 0 (''Delay error: '' # usage_text cmd))) \<and>
      (\<forall>v. \<not> snd (strtoul st v) \<and> fst (strtoul st v) mod 2 ^ 64 mod 8 \<noteq> 0 \<longrightarrow>
         main st (cmd # pre @ (''-w'' @ v) # post) e turns =
           Inl (Exit 0 (''Width is not even multiple of 8'' # usage_text cmd))) \<and>
      (\<forall>v. \<not> snd (strtoul st v) \<and> 2 ^ 63 \<le> fst (strtoul st v) mod 2 ^ 64 \<longrightarrow>
         main st (cmd # pre @ (''-o'' @ v) # post) e turns =
           Inl (Exit 0 (''Offset negative'' # usage_text cmd))) \<and>
      (\<forall>p. p \<noteq> ''-h'' \<and> p \<noteq> ''-r'' \<and> take 2 p \<notin> {''-w'', ''-o'', ''-d''} \<longrightarrow>
         (fd g0 < 0 \<and> open_path st p < 0 \<longrightarrow>
            main st (cmd # pre @ p # post) e turns =
              Inl (Exit 0 (''Path error: '' # usage_text cmd))) \<and>
         (fd g0 < 0 \<and> 0 \<le> open_path st p \<and> seek_end st (open_path st p) < 0 \<longrightarrow>
            main st (cmd # pre @ p # post) e turns =
              Inl (Exit 0 (''File size error: '' # usage_text cmd))) \<and>
         (0 \<le> fd g0 \<longrightarrow>
            main st (cmd # pre @ p # post) e turns = Inl (Exit 0 (usage_text cmd))))"
    if pre: "parse_args st cmd pre initial_globals = Inr g0" for st cmd pre g0 post e turns
  proof -
    note m = main_argument_exit [OF pre, where post = post and e = e and turns = turns]
    have h: "main st (cmd # pre @ ''-h'' # post) e turns = Inl (Exit 0 (usage_text cmd))"
      by (rule m) (simp add: usage_def)
    have w: "main st (cmd # pre @ (''-w'' @ v) # post) e turns =
          Inl (Exit 0 (''Width error: '' # usage_text cmd))"
      and o: "main st (cmd # pre @ (''-o'' @ v) # post) e turns =
          Inl (Exit 0 (''Offset error: '' # usage_text cmd))"
      and d: "main st (cmd # pre @ (''-d'' @ v) # post) e turns =
          Inl (Exit 0 (''Delay error: '' # usage_text cmd))"
      if "snd (strtoul st v)" for v
      using that by (auto intro!: m simp: usage_def Let_def)
    have w8: "main st (cmd # pre @ (''-w'' @ v) # post) e turns =
          Inl (Exit 0 (''Width is not even multiple of 8'' # usage_text cmd))"
      if "\<not> snd (strtoul st v) \<and> fst (strtoul st v) mod 2 ^ 64 mod 8 \<noteq> 0" for v
      using that by (auto intro!: m simp: usage_def Let_def)
    have on: "main st (cmd # pre @ (''-o'' @ v) # post) e turns =
          Inl (Exit 0 (''Offset negative'' # usage_text cmd))"
      if "\<not> snd (strtoul st v) \<and> 2 ^ 63 \<le> fst (strtoul st v) mod 2 ^ 64" for v
    proof -
      have "to_off_t (int (fst (strtoul st v) mod 2 ^ 64)) < 0"
        using that by (intro to_off_t_negative) simp_all
      then show ?thesis using that by (auto intro!: m simp: usage_def Let_def)
    qed
    have p: "(fd g0 < 0 \<and> open_path st p < 0 \<longrightarrow>
            main st (cmd # pre @ p # post) e turns =
              Inl (Exit 0 (''Path error: '' # usage_text cmd))) \<and>
         (fd g0 < 0 \<and> 0 \<le> open_path st p \<and> seek_end st (open_path st p) < 0 \<longrightarrow>
            main st (cmd # pre @ p # post) e turns =
              Inl (Exit 0 (''File size error: '' # usage_text cmd))) \<and>
         (0 \<le> fd g0 \<longrightarrow>
            main st (cmd # pre @ p # post) e turns = Inl (Exit 0 (usage_text cmd)))"
      if "p \<noteq> ''-h'' \<and> p \<noteq> ''-r'' \<and> take 2 p \<notin> {''-w'', ''-o'', ''-d''}" for p
      using that by (auto intro!: m simp: usage_def Let_def)
    show ?thesis using h w o d w8 on p by blast
  qed
  have 5: "(new_buffer_size (set_width g tw) th \<noteq> buffer_size g \<and>
       (realloc e = Failed \<or>
        realloc e = Freed \<and> new_buffer_size (set_width g tw) th \<noteq> 0) \<longrightarrow>
         update e g = Inl (ERROR e ''Memory allocation error: '')) \<and>
      (new_buffer_size (set_width g tw) th \<noteq> buffer_size g \<and>
       realloc e = Freed \<and> new_buffer_size (set_width g tw) th = 0 \<longrightarrow>
         update e g = Inl (Crash Double_free)) \<and>
      ((realloc e = Moved \<or> new_buffer_size (set_width g tw) th = buffer_size g) \<and>
       \<not> lseek_ok e \<longrightarrow>
         update e g = Inl (ERROR e ''File seek error: '')) \<and>
      ((realloc e = Moved \<or> new_buffer_size (set_width g tw) th = buffer_size g) \<and>
       lseek_ok e \<and>
       (\<not> read_ok e \<or>
        length (source e) -
          nat (offset (clamp_offset
            (set_width g tw\<lparr>buffer_size := new_buffer_size (set_width g tw) th\<rparr>))) <
        new_buffer_size (set_width g tw) th) \<longrightarrow>
         update e g = Inl (ERROR e ''File read error: ''))"
    if "term_size e = Inr (tw, th) \<and> stale g tw th" for e g tw th
    using that update_realloc_null [of e tw th g] update_seek_error [of e tw th g]
      update_read_error [of e tw th g]
    by blast
  have 6: "s = ERROR e ''Error geting terminal size: '' \<and> winsize e = None \<or>
      s = ERROR e ''Memory allocation error: '' \<and> (realloc e = Failed \<or> realloc e = Freed) \<or>
      s = Crash Double_free \<and> realloc e = Freed \<or>
      s = ERROR e ''File seek error: '' \<or> s = ERROR e ''File read error: ''"
    if "update e g = Inl s \<and> length (buffer g) = buffer_size g" for e g s
    using that update_exits by blast
  have 10: "run_loop ((e, Keys input) # turns) g = Inl s"
    if "key_action g (take 8 input) = Redraw g1 \<and> update e (disarm g1) = Inl s"
    for e turns g input g1 s
    using that by simp
  have 11: "run_loop ((e, Keys [0x1b]) # turns) g = Inl (Exit 0 []) \<and>
      run_loop ((e, Keys [0x71]) # turns) g = Inl (Exit 0 []) \<and>
      run_loop ((e, Keys [0x51]) # turns) g = Inl (Exit 0 []) \<and>
      run_loop ((e, Read_error) # turns) g = Inl (Exit 0 []) \<and>
      run_loop ((e, Interrupt) # turns) g = Inl (Exit 0 [])"
    if "term_reset_error e = None" for e turns g
    using run_loop_quit [OF that] run_loop_leave [OF that] by simp
  have 12: "run_loop ((e, Keys [0x71]) # turns) g = Inl (Exit (- 1) [m]) \<and>
      run_loop ((e, Interrupt) # turns) g = Inl (Exit (- 1) [m])"
    if "term_reset_error e = Some m" for e turns g m
    using that by (simp add: key_action_def leave_def Let_def)
  have 13: "(realloc e = Moved \<longrightarrow>
         stream_loop block ((e, Interrupt) # turns) g = Inl (Exit 0 []) \<and>
         (\<forall>bs. length bs < buffer_width (set_width g tw) div 8 * 3 \<longrightarrow>
            stream_loop block ((e, Keys bs) # turns) g = Inl (Exit 0 []))) \<and>
      (\<forall>ev. realloc e = Failed \<or>
            realloc e = Freed \<and>
            \<not> (block \<and> buffer_width (set_width g tw) div 8 * 3 = 0) \<longrightarrow>
         stream_loop block ((e, ev) # turns) g =
           Inl (Exit (- 1) [''Memory allocation error: ''])) \<and>
      (\<forall>ev. realloc e = Freed \<and> block \<and>
            buffer_width (set_width g tw) div 8 * 3 = 0 \<longrightarrow>
         stream_loop block ((e, ev) # turns) g = Inl (Crash Double_free))"
    if "term_size e = Inr (tw, th)" for e turns g block tw th
    using stream_loop_end [OF that, where g = g and block = block]
      stream_loop_realloc_null [OF that, where g = g and block = block]
    by blast
  show ?thesis
    apply (rule conjI)
    subgoal by (intro allI impI) (erule 1)
    apply (rule conjI)
    subgoal by (intro allI impI) (erule 2)
    apply (rule conjI)
    subgoal by (intro allI) (rule ERROR_lines)
    apply (rule conjI)
    subgoal by (intro allI impI) (erule update_no_winsize)
    apply (rule conjI)
    subgoal by (intro allI impI) (erule 5)
    apply (rule conjI)
    subgoal by (intro allI impI) (erule 6)
    apply (rule conjI)
    subgoal by (intro allI impI) (erule run_setup_error)
    apply (rule conjI)
    subgoal by (simp add: run_update_error)
    apply (rule conjI)
    subgoal by (simp add: main_run)
    apply (rule conjI)
    subgoal by (intro allI impI) (erule 10)
    apply (rule conjI)
    subgoal by (intro allI impI) (erule 11)
    apply (rule conjI)
    subgoal by (intro allI impI) (erule 12)
    apply (rule conjI)
    subgoal by (intro allI impI) (erule 13)
    subgoal by (simp add: main_def stream_def)
    done
qed

theorem exit_codes_witness:
  "main example_startup [''bitraster'', ''-w7''] example_env [] =
     Inl (Exit 0 (''Width is not even multiple of 8'' # usage_text ''bitraster'')) \<and>
   main example_startup [''bitraster'', ''-r'', ''-h'', ''file''] example_env [] =
     Inl (Exit 0 (usage_text ''bitraster'')) \<and>
   main example_startup [''bitraster'', ''-r'', ''-w99999999999999999999'', ''file'']
       example_env [] =
     Inl (Exit 0 (''Width error: '' # usage_text ''bitraster'')) \<and>
   main example_startup [''bitraster'', ''-r'', ''-o99999999999999999999'', ''file'']
       example_env [] =
     Inl (Exit 0 (''Offset error: '' # usage_text ''bitraster'')) \<and>
   main example_startup [''bitraster'', ''-r'', ''-d99999999999999999999'', ''file'']
       example_env [] =
     Inl (Exit 0 (''Delay error: '' # usage_text ''bitraster'')) \<and>
   main example_startup [''bitraster'', ''-r'', ''-w7'', ''file''] example_env [] =
     Inl (Exit 0 (''Width is not even multiple of 8'' # usage_text ''bitraster'')) \<and>
   main example_startup [''bitraster'', ''-r'', ''-o-1'', ''file''] example_env [] =
     Inl (Exit 0 (''Offset negative'' # usage_text ''bitraster'')) \<and>
   main example_startup [''bitraster'', ''-r'', ''nofile'', ''file''] example_env [] =
     Inl (Exit 0 (''Path error: '' # usage_text ''bitraster'')) \<and>
   main example_startup [''bitraster'', ''-r'', ''pipe'', ''file''] example_env [] =
     Inl (Exit 0 (''File size error: '' # usage_text ''bitraster'')) \<and>
   main example_startup [''bitraster'', ''file'', ''file''] example_env [] =
     Inl (Exit 0 (usage_text ''bitraster'')) \<and>
   update (example_env\<lparr>winsize := None\<rparr>) example_globals =
     Inl (Exit (- 1) [''Error geting terminal size: '']) \<and>
   update (example_env\<lparr>realloc := Failed\<rparr>) example_globals =
     Inl (Exit (- 1) [''Memory allocation error: '']) \<and>
   update (example_env\<lparr>winsize := Some (5, 0), realloc := Freed\<rparr>)
       (example_globals\<lparr>buffer := [1, 2, 3], buffer_size := 3\<rparr>) =
     Inl (Crash Double_free) \<and>
   update (example_env\<lparr>lseek_ok := False\<rparr>) example_globals =
     Inl (Exit (- 1) [''File seek error: '']) \<and>
   update (example_env\<lparr>read_ok := False\<rparr>) example_globals =
     Inl (Exit (- 1) [''File read error: '']) \<and>
   update (example_env\<lparr>source := [1, 2]\<rparr>) example_globals =
     Inl (Exit (- 1) [''File read error: '']) \<and>
   update (example_env\<lparr>lseek_ok := False, term_reset_error := Some ''Error getting STDIN flags: ''\<rparr>)
       example_globals =
     Inl (Exit (- 1) [''Error getting STDIN flags: '']) \<and>
   (Exit (- 1) [''File seek error: ''] =
      ERROR (example_env\<lparr>lseek_ok := False\<rparr>) ''Error geting terminal size: '' \<and>
      winsize (example_env\<lparr>lseek_ok := False\<rparr>) = None \<or>
    Exit (- 1) [''File seek error: ''] =
      ERROR (example_env\<lparr>lseek_ok := False\<rparr>) ''Memory allocation error: '' \<and>
      (realloc (example_env\<lparr>lseek_ok := False\<rparr>) = Failed \<or>
       realloc (example_env\<lparr>lseek_ok := False\<rparr>) = Freed) \<or>
    Exit (- 1) [''File seek error: ''] = Crash Double_free \<and>
      realloc (example_env\<lparr>lseek_ok := False\<rparr>) = Freed \<or>
    Exit (- 1) [''File seek error: ''] =
      ERROR (example_env\<lparr>lseek_ok := False\<rparr>) ''File seek error: '' \<or>
    Exit (- 1) [''File seek error: ''] =
      ERROR (example_env\<lparr>lseek_ok := False\<rparr>) ''File read error: '') \<and>
   run (example_env\<lparr>term_setup_error := Some ''Error setting terminal flags: ''\<rparr>) []
       example_globals =
     Inl (Exit (- 1) [''Error setting terminal flags: '']) \<and>
   run (example_env\<lparr>lseek_ok := False\<rparr>) [] example_globals =
     Inl (Exit (- 1) [''File seek error: '']) \<and>
   main example_startup [''bitraster'', ''-w8'', ''-o7'', ''file'']
       (example_env\<lparr>lseek_ok := False\<rparr>) [] =
     run (example_env\<lparr>lseek_ok := False\<rparr>) [] example_globals \<and>
   run_loop [(example_env\<lparr>lseek_ok := False\<rparr>, Keys [0x6a])] example_globals =
     Inl (Exit (- 1) [''File seek error: '']) \<and>
   run_loop [(example_env, Keys [0x1b])] example_globals = Inl (Exit 0 []) \<and>
   run_loop [(example_env, Keys [0x71])] example_globals = Inl (Exit 0 []) \<and>
   run_loop [(example_env, Keys [0x51])] example_globals = Inl (Exit 0 []) \<and>
   run_loop [(example_env, Read_error)] example_globals = Inl (Exit 0 []) \<and>
   run_loop [(example_env, Interrupt)] example_globals = Inl (Exit 0 []) \<and>
   run_loop [(example_env\<lparr>term_reset_error := Some ''Error getting STDIN flags: ''\<rparr>,
              Keys [0x71])] example_globals =
     Inl (Exit (- 1) [''Error getting STDIN flags: '']) \<and>
   stream_loop False [(example_env, Interrupt)] initial_globals = Inl (Exit 0 []) \<and>
   stream_loop False [(example_env, Keys [1, 2])] initial_globals = Inl (Exit 0 []) \<and>
   stream_loop False [(example_env\<lparr>realloc := Failed\<rparr>, Keys [1, 2, 3])] initial_globals =
     Inl (Exit (- 1) [''Memory allocation error: '']) \<and>
   stream_loop False
       [(example_env\<lparr>winsize := Some (3, 1)\<rparr>, Keys []),
        (example_env\<lparr>winsize := Some (3, 1), realloc := Freed\<rparr>, Keys [])]
       initial_globals =
     Inl (Crash Double_free) \<and>
   main example_startup [''bitraster'', ''-r''] example_env [(example_env, Keys [1, 2])] =
     Inl (Exit 0 [])"
proof -
  note c1 = exit_codes [THEN conjunct1, rule_format]
  note c2 = exit_codes [THEN conjunct2, THEN conjunct1, rule_format]
  note c3 = exit_codes [THEN conjunct2, THEN conjunct2, THEN conjunct1, rule_format]
  note c4 = exit_codes [THEN conjunct2, THEN conjunct2, THEN conjunct2, THEN conjunct1,
      rule_format]
  note c5 = exit_codes [THEN conjunct2, THEN conjunct2, THEN conjunct2, THEN conjunct2,
      THEN conjunct1, rule_format]
  note c6 = exit_codes [THEN conjunct2, THEN conjunct2, THEN conjunct2, THEN conjunct2,
      THEN conjunct2, THEN conjunct1, rule_format]
  note c7 = exit_codes [THEN conjunct2, THEN conjunct2, THEN conjunct2, THEN conjunct2,
      THEN conjunct2, THEN conjunct2, THEN conjunct1, rule_format]
  note c8 = exit_codes [THEN conjunct2, THEN conjunct2, THEN conjunct2, THEN conjunct2,
      THEN conjunct2, THEN conjunct2, THEN conjunct2, THEN conjunct1, rule_format]
  note c9 = exit_codes [THEN conjunct2, THEN conjunct2, THEN conjunct2, THEN conjunct2,
      THEN conjunct2, THEN conjunct2, THEN conjunct2, THEN conjunct2, THEN conjunct1,
      rule_format]
  note c10 = exit_codes [THEN conjunct2, THEN conjunct2, THEN conjunct2, THEN conjunct2,
      THEN conjunct2, THEN conjunct2, THEN conjunct2, THEN conjunct2, THEN conjunct2,
      THEN conjunct1, rule_format]
  note c11 = exit_codes [THEN conjunct2, THEN conjunct2, THEN conjunct2, THEN conjunct2,
      THEN conjunct2, THEN conjunct2, THEN conjunct2, THEN conjunct2, THEN conjunct2,
      THEN conjunct2, THEN conjunct1, rule_format]
  note c12 = exit_codes [THEN conjunct2, THEN conjunct2, THEN conjunct2, THEN conjunct2,
      THEN conjunct2, THEN conjunct2, THEN conjunct2, THEN conjunct2, THEN conjunct2,
      THEN conjunct2, THEN conjunct2, THEN conjunct1, rule_format]
  note c13 = exit_codes [THEN conjunct2, THEN conjunct2, THEN conjunct2, THEN conjunct2,
      THEN conjunct2, THEN conjunct2, THEN conjunct2, THEN conjunct2, THEN conjunct2,
      THEN conjunct2, THEN conjunct2, THEN conjunct2, THEN conjunct1, rule_format]
  note c14 = exit_codes [THEN conjunct2, THEN conjunct2, THEN conjunct2, THEN conjunct2,
      THEN conjunct2, THEN conjunct2, THEN conjunct2, THEN conjunct2, THEN conjunct2,
      THEN conjunct2, THEN conjunct2, THEN conjunct2, THEN conjunct2, rule_format]
  note ev = example_env_def example_globals_def initial_globals_def term_size_def stale_def
    set_width_def new_buffer_size_def to_size_t_def to_off_t_def clamp_offset_def Let_def
  have w1: "main example_startup [''bitraster'', ''-w7''] example_env [] =
      Inl (Exit 0 (''Width is not even multiple of 8'' # usage_text ''bitraster''))"
    using c1 [OF example_parse] by simp
  have r: "parse_args example_startup ''bitraster'' [''-r''] initial_globals =
      Inr (initial_globals\<lparr>reverse_byte := 1\<rparr>)"
    by simp
  note a = c2 [OF r, where post = "[''file'']" and e = example_env and turns = "[]"]
  have w2: "main example_startup [''bitraster'', ''-r'', ''-h'', ''file''] example_env [] =
      Inl (Exit 0 (usage_text ''bitraster''))"
    using a [THEN conjunct1] by simp
  have w3: "main example_startup [''bitraster'', ''-r'', ''-w99999999999999999999'', ''file'']
        example_env [] =
      Inl (Exit 0 (''Width error: '' # usage_text ''bitraster''))"
    "main example_startup [''bitraster'', ''-r'', ''-o99999999999999999999'', ''file'']
        example_env [] =
      Inl (Exit 0 (''Offset error: '' # usage_text ''bitraster''))"
    "main example_startup [''bitraster'', ''-r'', ''-d99999999999999999999'', ''file'']
        example_env [] =
      Inl (Exit 0 (''Delay error: '' # usage_text ''bitraster''))"
    using a [THEN conjunct2, THEN conjunct1, rule_format, of "''99999999999999999999''"]
    by (simp_all add: example_startup_def)
  have w4: "main example_startup [''bitraster'', ''-r'', ''-w7'', ''file''] example_env [] =
      Inl (Exit 0 (''Width is not even multiple of 8'' # usage_text ''bitraster''))"
    using a [THEN conjunct2, THEN conjunct2, THEN conjunct1, rule_format, of "''7''"]
    by (simp add: example_startup_def)
  have w5: "main example_startup [''bitraster'', ''-r'', ''-o-1'', ''file''] example_env [] =
      Inl (Exit 0 (''Offset negative'' # usage_text ''bitraster''))"
    using a [THEN conjunct2, THEN conjunct2, THEN conjunct2, THEN conjunct1, rule_format,
        of "''-1''"]
    by (simp add: example_startup_def)
  note b = a [THEN conjunct2, THEN conjunct2, THEN conjunct2, THEN conjunct2, rule_format]
  have w6: "main example_startup [''bitraster'', ''-r'', ''nofile'', ''file''] example_env [] =
      Inl (Exit 0 (''Path error: '' # usage_text ''bitraster''))"
    using b [of "''nofile''", THEN conjunct1]
    by (simp add: example_startup_def initial_globals_def)
  have w7: "main example_startup [''bitraster'', ''-r'', ''pipe'', ''file''] example_env [] =
      Inl (Exit 0 (''File size error: '' # usage_text ''bitraster''))"
    using b [of "''pipe''", THEN conjunct2, THEN conjunct1]
    by (simp add: example_startup_def initial_globals_def)
  have f: "parse_args example_startup ''bitraster'' [''file''] initial_globals =
      Inr (initial_globals\<lparr>fd := 3, fd_size := 8\<rparr>)"
    by (simp add: example_startup_def initial_globals_def)
  have w8: "main example_startup [''bitraster'', ''file'', ''file''] example_env [] =
      Inl (Exit 0 (usage_text ''bitraster''))"
    using c2 [OF f, where post = "[]" and e = example_env and turns = "[]",
        THEN conjunct2, THEN conjunct2, THEN conjunct2, THEN conjunct2, rule_format,
        of "''file''", THEN conjunct2, THEN conjunct2]
    by simp
  have u1: "update (example_env\<lparr>winsize := None\<rparr>) example_globals =
      Inl (Exit (- 1) [''Error geting terminal size: ''])"
    using c4 [of "example_env\<lparr>winsize := None\<rparr>" example_globals]
      c3 [of "example_env\<lparr>winsize := None\<rparr>" "''Error geting terminal size: ''"]
    by (simp add: example_env_def)
  have t: "term_size (example_env\<lparr>realloc := x, lseek_ok := l, read_ok := k,
        term_reset_error := m\<rparr>) = Inr (5, 1) \<and>
      stale example_globals 5 1" for x l k m
    by (simp add: ev)
  have n: "new_buffer_size (set_width example_globals 5) 1 = 3"
    "buffer_size example_globals = 0"
    by (simp_all add: ev)
  have u2: "update (example_env\<lparr>realloc := Failed\<rparr>) example_globals =
      Inl (Exit (- 1) [''Memory allocation error: ''])"
    using c5 [of "example_env\<lparr>realloc := Failed\<rparr>" 5 1 example_globals, THEN conjunct1]
      c3 [of "example_env\<lparr>realloc := Failed\<rparr>" "''Memory allocation error: ''"]
    by (simp add: ev)
  have u3: "update (example_env\<lparr>winsize := Some (5, 0), realloc := Freed\<rparr>)
        (example_globals\<lparr>buffer := [1, 2, 3], buffer_size := 3\<rparr>) =
      Inl (Crash Double_free)"
    using c5 [of "example_env\<lparr>winsize := Some (5, 0), realloc := Freed\<rparr>" 5 0
        "example_globals\<lparr>buffer := [1, 2, 3], buffer_size := 3\<rparr>",
        THEN conjunct2, THEN conjunct1]
    by (simp add: ev)
  have u4: "update (example_env\<lparr>lseek_ok := False\<rparr>) example_globals =
      Inl (Exit (- 1) [''File seek error: ''])"
    using c5 [of "example_env\<lparr>lseek_ok := False\<rparr>" 5 1 example_globals,
        THEN conjunct2, THEN conjunct2, THEN conjunct1]
      c3 [of "example_env\<lparr>lseek_ok := False\<rparr>" "''File seek error: ''"]
    by (simp add: ev)
  have u5: "update (example_env\<lparr>read_ok := False\<rparr>) example_globals =
      Inl (Exit (- 1) [''File read error: ''])"
    using c5 [of "example_env\<lparr>read_ok := False\<rparr>" 5 1 example_globals,
        THEN conjunct2, THEN conjunct2, THEN conjunct2]
      c3 [of "example_env\<lparr>read_ok := False\<rparr>" "''File read error: ''"]
    by (simp add: ev)
  have u6: "update (example_env\<lparr>source := [1, 2]\<rparr>) example_globals =
      Inl (Exit (- 1) [''File read error: ''])"
    using c5 [of "example_env\<lparr>source := [1, 2]\<rparr>" 5 1 example_globals,
        THEN conjunct2, THEN conjunct2, THEN conjunct2]
      c3 [of "example_env\<lparr>source := [1, 2]\<rparr>" "''File read error: ''"]
    by (simp add: ev)
  have u7: "update (example_env\<lparr>lseek_ok := False,
          term_reset_error := Some ''Error getting STDIN flags: ''\<rparr>) example_globals =
      Inl (Exit (- 1) [''Error getting STDIN flags: ''])"
    using c5 [of "example_env\<lparr>lseek_ok := False,
          term_reset_error := Some ''Error getting STDIN flags: ''\<rparr>" 5 1 example_globals,
        THEN conjunct2, THEN conjunct2, THEN conjunct1]
      c3 [of "example_env\<lparr>lseek_ok := False,
          term_reset_error := Some ''Error getting STDIN flags: ''\<rparr>" "''File seek error: ''"]
    by (simp add: ev)
  have u8: "Exit (- 1) [''File seek error: ''] =
      ERROR (example_env\<lparr>lseek_ok := False\<rparr>) ''Error geting terminal size: '' \<and>
      winsize (example_env\<lparr>lseek_ok := False\<rparr>) = None \<or>
    Exit (- 1) [''File seek error: ''] =
      ERROR (example_env\<lparr>lseek_ok := False\<rparr>) ''Memory allocation error: '' \<and>
      (realloc (example_env\<lparr>lseek_ok := False\<rparr>) = Failed \<or>
       realloc (example_env\<lparr>lseek_ok := False\<rparr>) = Freed) \<or>
    Exit (- 1) [''File seek error: ''] = Crash Double_free \<and>
      realloc (example_env\<lparr>lseek_ok := False\<rparr>) = Freed \<or>
    Exit (- 1) [''File seek error: ''] =
      ERROR (example_env\<lparr>lseek_ok := False\<rparr>) ''File seek error: '' \<or>
    Exit (- 1) [''File seek error: ''] =
      ERROR (example_env\<lparr>lseek_ok := False\<rparr>) ''File read error: ''"
  proof (rule c6 [where g = example_globals], rule conjI)
    show "update (example_env\<lparr>lseek_ok := False\<rparr>) example_globals =
        Inl (Exit (- 1) [''File seek error: ''])"
      by (rule u4)
    show "length (buffer example_globals) = buffer_size example_globals"
      by (simp add: example_globals_def initial_globals_def)
  qed
  have r1: "run (example_env\<lparr>term_setup_error := Some ''Error setting terminal flags: ''\<rparr>) []
        example_globals =
      Inl (Exit (- 1) [''Error setting terminal flags: ''])"
    by (rule c7) simp
  have r2: "run (example_env\<lparr>lseek_ok := False\<rparr>) [] example_globals =
      Inl (Exit (- 1) [''File seek error: ''])"
  proof (rule c8, rule conjI)
    show "term_setup_error (example_env\<lparr>lseek_ok := False\<rparr>) = None"
      by (simp add: example_env_def)
    show "update (example_env\<lparr>lseek_ok := False\<rparr>) example_globals =
        Inl (Exit (- 1) [''File seek error: ''])"
      by (rule u4)
  qed
  have r3: "main example_startup [''bitraster'', ''-w8'', ''-o7'', ''file'']
        (example_env\<lparr>lseek_ok := False\<rparr>) [] =
      run (example_env\<lparr>lseek_ok := False\<rparr>) [] example_globals"
    by (rule c9) (simp add: example_startup_def example_globals_def initial_globals_def
        to_off_t_def)
  have j: "key_action example_globals (take 8 [0x6a]) =
      Redraw (example_globals\<lparr>offset := 8\<rparr>)"
    by (simp add: key_action_def scroll_def ev)
  have uj: "update (example_env\<lparr>lseek_ok := False\<rparr>) (disarm (example_globals\<lparr>offset := 8\<rparr>)) =
      Inl (Exit (- 1) [''File seek error: ''])"
    using c5 [of "example_env\<lparr>lseek_ok := False\<rparr>" 5 1
        "disarm (example_globals\<lparr>offset := 8\<rparr>)", THEN conjunct2, THEN conjunct2, THEN conjunct1]
      c3 [of "example_env\<lparr>lseek_ok := False\<rparr>" "''File seek error: ''"]
    by (simp add: ev disarm_def)
  have r4: "run_loop [(example_env\<lparr>lseek_ok := False\<rparr>, Keys [0x6a])] example_globals =
      Inl (Exit (- 1) [''File seek error: ''])"
    using j uj by (intro c10 conjI)
  have q: "run_loop [(example_env, Keys [0x1b])] example_globals = Inl (Exit 0 []) \<and>
      run_loop [(example_env, Keys [0x71])] example_globals = Inl (Exit 0 []) \<and>
      run_loop [(example_env, Keys [0x51])] example_globals = Inl (Exit 0 []) \<and>
      run_loop [(example_env, Read_error)] example_globals = Inl (Exit 0 []) \<and>
      run_loop [(example_env, Interrupt)] example_globals = Inl (Exit 0 [])"
    by (rule c11) (simp add: example_env_def)
  have q2: "run_loop [(example_env\<lparr>term_reset_error := Some ''Error getting STDIN flags: ''\<rparr>,
               Keys [0x71])] example_globals =
      Inl (Exit (- 1) [''Error getting STDIN flags: ''])"
    by (rule c12 [THEN conjunct1]) simp
  have ts: "term_size (example_env\<lparr>realloc := x\<rparr>) = Inr (5, 1)"
    "term_size (example_env\<lparr>winsize := Some (3, 1), realloc := x\<rparr>) = Inr (3, 1)" for x
    by (simp_all add: example_env_def term_size_def)
  have s1: "stream_loop False [(example_env, Interrupt)] g = Inl (Exit 0 [])"
    "buffer_width g = 0 \<Longrightarrow> stream_loop False [(example_env, Keys [1, 2])] g = Inl (Exit 0 [])"
    for g
    using c13 [of "example_env\<lparr>realloc := Moved\<rparr>" 5 1 False "[]" g, OF ts(1),
        THEN conjunct1]
    by (simp_all add: ev)
  have s2: "stream_loop False [(example_env\<lparr>realloc := Failed\<rparr>, Keys [1, 2, 3])]
        initial_globals =
      Inl (Exit (- 1) [''Memory allocation error: ''])"
    using c13 [OF ts(1), THEN conjunct2, THEN conjunct1, rule_format, of Failed]
    by (simp add: example_env_def)
  have "stream_loop False
        [(example_env\<lparr>winsize := Some (3, 1)\<rparr>, Keys []),
         (example_env\<lparr>winsize := Some (3, 1), realloc := Freed\<rparr>, Keys [])]
        initial_globals =
      stream_loop True [(example_env\<lparr>winsize := Some (3, 1), realloc := Freed\<rparr>, Keys [])]
        initial_globals"
    by (simp add: ev to_int_def draw_cells.simps)
  also have "\<dots> = Inl (Crash Double_free)"
    using c13 [OF ts(2), THEN conjunct2, THEN conjunct2, rule_format, of Freed True
        initial_globals]
    by (simp add: ev)
  finally have s3: "stream_loop False
        [(example_env\<lparr>winsize := Some (3, 1)\<rparr>, Keys []),
         (example_env\<lparr>winsize := Some (3, 1), realloc := Freed\<rparr>, Keys [])]
        initial_globals =
      Inl (Crash Double_free)" .
  have s4: "main example_startup [''bitraster'', ''-r''] example_env [(example_env, Keys [1, 2])] =
      Inl (Exit 0 [])"
    using c14 [of example_startup "''bitraster''" "[''-r'']" "initial_globals\<lparr>reverse_byte := 1\<rparr>"
        example_env "[(example_env, Keys [1, 2])]"]
      s1(2) [of "initial_globals\<lparr>reverse_byte := 1\<rparr>"]
    by (simp add: initial_globals_def)
  show ?thesis
    using w1 w2 w3 w4 w5 w6 w7 w8 u1 u2 u3 u4 u5 u6 u7 u8 r1 r2 r3 r4 q q2
      s1(1) [of initial_globals] s1(2) [of initial_globals] s2 s3 s4
    by (intro conjI) (simp_all add: initial_globals_def)
qed

text \<open>
  The claim as stated fails at an argument error: \<open>bitraster -w7\<close>, a width that is not
  a multiple of 8, writes the cause and the usage text and leaves with status 0.
\<close>

theorem argument_error_exit_counterexample:
  "main example_startup [''bitraster'', ''-w7''] example_env [] =
     Inl (Exit 0 (''Width is not even multiple of 8'' # usage_text ''bitraster''))"
  by (simp only: main_def list.case example_parse sum.case)

end
